theory Spec2Isabelle
  imports Complex_Main
begin

section \<open>The WeChat instance manager (wx\_manager.py)\<close>

subsection \<open>Construction: \<open>WxManager.__new__\<close>\<close>

text \<open>
  Objects are heap addresses. The class holds the attribute \<open>_instance\<close>; the
  allocator (\<open>super().__new__(cls)\<close>) hands out the next free address, so two
  allocations never give the same object.
  \<^verbatim>\<open>
    def __new__(cls):
        if cls._instance is None:
            with cls._lock:
                if cls._instance is None:
                    cls._instance = super().__new__(cls)
        return cls._instance
  \<close>
  The lock is reentrant and construction is modelled sequentially: entering and leaving
  it changes nothing.
\<close>

type_synonym addr = nat

record cls =
  cls_instance :: "addr option"
  next_free :: addr

definition cls_init :: cls where
  "cls_init = \<lparr>cls_instance = None, next_free = 0\<rparr>"

definition object_new :: "cls \<Rightarrow> addr \<times> cls" where
  "object_new c = (next_free c, c\<lparr>next_free := Suc (next_free c)\<rparr>)"

definition WxManager_new :: "cls \<Rightarrow> addr \<times> cls" where
  "WxManager_new c =
     (let c1 = (if cls_instance c = None
                then (if cls_instance c = None
                      then (let (a, c') = object_new c in c'\<lparr>cls_instance := Some a\<rparr>)
                      else c)
                else c)
      in case cls_instance c1 of
           Some a \<Rightarrow> (a, c1)
         | None \<Rightarrow> (next_free c1, c1))"

text \<open>
  The last case (\<open>_instance\<close> still \<open>None\<close> at the \<open>return\<close>) cannot occur and is
  there only because HOL functions are total; \<open>WxManager_new_instance\<close> below shows
  that the first case is always taken.

  \<open>constructions n c\<close> calls \<open>WxManager()\<close> \<open>n\<close> times in a row and returns the
  objects in call order together with the final class state. The module itself
  makes the first call: \<open>wx_manager = WxManager()\<close>.
\<close>

fun constructions :: "nat \<Rightarrow> cls \<Rightarrow> addr list \<times> cls" where
  "constructions 0 c = ([], c)"
| "constructions (Suc n) c =
     (let (a, c1) = WxManager_new c; (as, c2) = constructions n c1 in (a # as, c2))"

definition wx_manager :: addr where
  "wx_manager = fst (WxManager_new cls_init)"

definition cls_after_import :: cls where
  "cls_after_import = snd (WxManager_new cls_init)"

lemma WxManager_new_instance:
  "cls_instance (snd (WxManager_new c)) = Some (fst (WxManager_new c))"
  by (simp add: WxManager_new_def object_new_def Let_def split: option.splits)

lemma WxManager_new_existing:
  "cls_instance c = Some a \<Longrightarrow> WxManager_new c = (a, c)"
  by (simp add: WxManager_new_def)

lemma constructions_existing:
  "cls_instance c = Some a \<Longrightarrow> constructions n c = (replicate n a, c)"
  by (induction n) (simp_all add: WxManager_new_existing)

text \<open>
  C1. WxManager is a singleton: whatever the class state before the first call, and
  however many constructions follow, every later \<open>WxManager()\<close> returns the object
  the first call returned, the class attribute \<open>_instance\<close> holds that object from the
  first call on and is never assigned again (the class state no longer changes), and
  in particular every construction after the module's own \<open>wx_manager = WxManager()\<close>
  returns \<open>wx_manager\<close>.
\<close>

theorem WxManager_singleton:
  "constructions (Suc n) c =
     (replicate (Suc n) (fst (WxManager_new c)), snd (WxManager_new c))
   \<and> cls_instance (snd (WxManager_new c)) = Some (fst (WxManager_new c))
   \<and> constructions n cls_after_import = (replicate n wx_manager, cls_after_import)"
proof -
  obtain a c1 where new: "WxManager_new c = (a, c1)"
    by (cases "WxManager_new c")
  have inst: "cls_instance c1 = Some a"
    using WxManager_new_instance [of c] new by simp
  have "constructions (Suc n) c = (replicate (Suc n) a, c1)"
    using new constructions_existing [OF inst, of n] by simp
  moreover have "cls_instance cls_after_import = Some wx_manager"
    unfolding cls_after_import_def wx_manager_def by (rule WxManager_new_instance)
  then have "constructions n cls_after_import = (replicate n wx_manager, cls_after_import)"
    by (rule constructions_existing)
  ultimately show ?thesis
    using new inst by simp
qed

subsection \<open>The connection state and the calls into the automation library\<close>

text \<open>
  A Python \<open>str\<close> is a sequence of Unicode code points. Exceptions are values; every
  exception below derives from \<open>Exception\<close>, and \<open>OtherException\<close> stands for any
  class that has no constructor of its own here. Interrupts (\<open>KeyboardInterrupt\<close>,
  \<open>SystemExit\<close>), which no \<open>except Exception\<close> catches, and console output
  (\<open>print\<close>) are outside the model.
\<close>

type_synonym ustr = "int list"

datatype error =
  ValueError | OverflowError | LookupError | UnboundLocalError | IntegrityError
  | TypeError | OtherException

text \<open>
  What the code reads of a \<open>WeChat\<close> object: its identity, the attribute \<open>nickname\<close>
  (\<open>None\<close> when the attribute is missing or holds \<open>None\<close>), and whether it has a
  callable \<open>Close\<close>.
\<close>

record wechat =
  wx_id :: nat
  nickname :: "ustr option"
  has_close :: bool

text \<open>
  The attributes of the one \<open>WxManager\<close> object: \<open>_wx\<close>, \<open>_last_heartbeat\<close>,
  \<open>_retry_count\<close>, \<open>_connection_state\<close>, with their class-level defaults as the
  initial state. Times are seconds since the epoch (\<open>time.time()\<close>), taken as reals.
\<close>

record wx_state =
  wx :: "wechat option"
  last_heartbeat :: "real option"
  retry_count :: int
  connection_state :: bool

definition wx_init :: wx_state where
  "wx_init = \<lparr>wx = None, last_heartbeat = None, retry_count = 0, connection_state = False\<rparr>"

definition MAX_RETRY_COUNT :: int where
  "MAX_RETRY_COUNT = 3"

definition HEARTBEAT_INTERVAL :: real where
  "HEARTBEAT_INTERVAL = 60"

text \<open>
  The functions of the automation library, and what a run records of them: each call
  with whether it raised, and each \<open>time.sleep\<close> with its duration.
\<close>

datatype api =
  FindWindow | WeChat | GetSession | Close | GetAllRecentGroups | ChatWith
  | GetAllMessage | LoadMoreMessage | GetGroupMembers

datatype event = Sleep real | Called api bool

definition raised :: "event \<Rightarrow> bool" where
  "raised ev = (case ev of Sleep _ \<Rightarrow> False | Called _ r \<Rightarrow> r)"

definition is_sleep :: "event \<Rightarrow> bool" where
  "is_sleep ev = (case ev of Sleep _ \<Rightarrow> True | Called _ _ \<Rightarrow> False)"

text \<open>
  The outcomes of the library calls and clock reads that one call of
  \<open>get_wx_instance\<close> (or of one of its parts) can make. Each is made at most once, so
  the environment is the record of their outcomes: \<open>Inl\<close> is the exception raised.
  \<open>FindWindow\<close> returns a window handle (0 when there is none), \<open>GetSession\<close> the
  session list or \<open>None\<close>.
\<close>

record env =
  find_window :: "error + int"
  wechat_ctor :: "error + wechat"
  get_session :: "error + ustr list option"
  close_result :: "error + unit"
  time_check :: real
  time_create :: real

definition check_wx_window_exists :: "env \<Rightarrow> bool \<times> event list" where
  "check_wx_window_exists e =
     (case find_window e of
        Inr wx_hwnd \<Rightarrow> (if wx_hwnd \<noteq> 0 then (True, [Called FindWindow False])
                       else (False, [Called FindWindow False]))
      | Inl _ \<Rightarrow> (False, [Called FindWindow True]))"

definition has_nickname :: "wechat \<Rightarrow> bool" where
  "has_nickname w = (case nickname w of None \<Rightarrow> False | Some n \<Rightarrow> n \<noteq> [])"

text \<open>
  \<open>_create_instance\<close>: returns the instance or \<open>None\<close>, the new state, and what was
  called.
\<close>

definition create_instance :: "env \<Rightarrow> wx_state \<Rightarrow> wechat option \<times> wx_state \<times> event list" where
  "create_instance e s =
     (if retry_count s \<ge> MAX_RETRY_COUNT then (None, s, [])
      else
        let waited = (if retry_count s > 0
                      then [Sleep (of_int (2 * retry_count s))] else []);
            (window_exists, t1) = check_wx_window_exists e
        in
          if \<not> window_exists then
            (None, s\<lparr>retry_count := retry_count s + 1, connection_state := False\<rparr>,
             waited @ t1)
          else
            (case wechat_ctor e of
               Inl err \<Rightarrow>
                 (if err = LookupError then
                    (None,
                     s\<lparr>retry_count := retry_count s + 1, connection_state := False,
                        wx := None\<rparr>,
                     waited @ t1 @ [Called WeChat True])
                  else
                    (None,
                     s\<lparr>retry_count := retry_count s + 1, connection_state := False,
                        wx := None\<rparr>,
                     waited @ t1 @ [Called WeChat True]))
             | Inr w \<Rightarrow>
                 (let s1 = s\<lparr>wx := Some w\<rparr> in
                  if \<not> has_nickname w then
                    (None,
                     s1\<lparr>retry_count := retry_count s1 + 1, connection_state := False,
                         wx := None\<rparr>,
                     waited @ t1 @ [Called WeChat False])
                  else
                    (wx s1,
                     s1\<lparr>last_heartbeat := Some (time_create e), connection_state := True,
                         retry_count := 0\<rparr>,
                     waited @ t1 @ [Called WeChat False]))))"

text \<open>
  \<open>_check_connection\<close>. The guard \<open>self._last_heartbeat and (...)\<close> is Python
  truthiness: \<open>None\<close> and \<open>0.0\<close> are both false.
\<close>

definition truthy_time :: "real option \<Rightarrow> bool" where
  "truthy_time t = (case t of None \<Rightarrow> False | Some x \<Rightarrow> x \<noteq> 0)"

definition check_connection :: "env \<Rightarrow> wx_state \<Rightarrow> bool \<times> wx_state \<times> event list" where
  "check_connection e s =
     (case wx s of
        None \<Rightarrow> (False, s, [])
      | Some w \<Rightarrow>
          (let current_time = time_check e in
           if truthy_time (last_heartbeat s)
              \<and> current_time - (case last_heartbeat s of Some t \<Rightarrow> t | None \<Rightarrow> 0)
                  < HEARTBEAT_INTERVAL
           then (connection_state s, s, [])
           else
             (case get_session e of
                Inr sessions \<Rightarrow>
                  (if sessions = None then
                     (False, s\<lparr>connection_state := False, wx := None\<rparr>,
                      [Called GetSession False])
                   else
                     (True, s\<lparr>last_heartbeat := Some current_time, connection_state := True\<rparr>,
                      [Called GetSession False]))
              | Inl _ \<Rightarrow>
                  (False, s\<lparr>connection_state := False, wx := None\<rparr>,
                   [Called GetSession True]))))"

text \<open>
  \<open>_cleanup_instance\<close>: whatever \<open>Close\<close> does, the \<open>finally\<close> block resets the
  three attributes.
\<close>

definition cleanup_instance :: "env \<Rightarrow> wx_state \<Rightarrow> wx_state \<times> event list" where
  "cleanup_instance e s =
     (case wx s of
        None \<Rightarrow> (s, [])
      | Some w \<Rightarrow>
          (let t = (if has_close w
                    then (case close_result e of
                            Inr _ \<Rightarrow> [Called Close False]
                          | Inl _ \<Rightarrow> [Called Close True])
                    else [])
           in (s\<lparr>wx := None, connection_state := False, last_heartbeat := None\<rparr>, t)))"

definition get_wx_instance :: "env \<Rightarrow> wx_state \<Rightarrow> wechat option \<times> wx_state \<times> event list" where
  "get_wx_instance e s =
     (if wx s \<noteq> None then
        (let (ok, s1, t1) = check_connection e s in
         if ok then (wx s1, s1, t1)
         else
           (let (s2, t2) = cleanup_instance e s1;
                (r, s3, t3) = create_instance e s2
            in (r, s3, t1 @ t2 @ t3)))
      else create_instance e s)"

text \<open>
  Sequences of operations on the manager, each with the environment it meets.
\<close>

datatype op = Get_wx_instance | Create_instance | Check_connection | Cleanup_instance

fun step :: "wx_state \<Rightarrow> op \<times> env \<Rightarrow> wx_state" where
  "step s (Get_wx_instance, e) = fst (snd (get_wx_instance e s))"
| "step s (Create_instance, e) = fst (snd (create_instance e s))"
| "step s (Check_connection, e) = fst (snd (check_connection e s))"
| "step s (Cleanup_instance, e) = fst (cleanup_instance e s)"

definition run :: "(op \<times> env) list \<Rightarrow> wx_state" where
  "run ops = foldl step wx_init ops"

subsection \<open>What every sequence of operations keeps true\<close>

text \<open>
  Between operations: the connection flag is never set without an instance; an instance
  whose flag is down is left over from a failed re-creation, which counted a retry; and
  the retry counter stays between 0 and 3.
\<close>

definition wx_inv :: "wx_state \<Rightarrow> bool" where
  "wx_inv s = ((wx s = None \<longrightarrow> \<not> connection_state s)
     \<and> (wx s \<noteq> None \<and> \<not> connection_state s \<longrightarrow> 1 \<le> retry_count s)
     \<and> 0 \<le> retry_count s \<and> retry_count s \<le> 3)"

lemma create_instance_inv: "wx_inv s \<Longrightarrow> wx_inv (fst (snd (create_instance e s)))"
  by (auto simp: wx_inv_def create_instance_def check_wx_window_exists_def MAX_RETRY_COUNT_def Let_def
      split: sum.splits if_splits prod.splits)

lemma check_connection_inv: "wx_inv s \<Longrightarrow> wx_inv (fst (snd (check_connection e s)))"
  by (auto simp: wx_inv_def check_connection_def Let_def split: sum.splits option.splits)

lemma cleanup_instance_inv: "wx_inv s \<Longrightarrow> wx_inv (fst (cleanup_instance e s))"
  by (auto simp: wx_inv_def cleanup_instance_def Let_def split: sum.splits option.splits)

lemma get_wx_instance_inv: "wx_inv s \<Longrightarrow> wx_inv (fst (snd (get_wx_instance e s)))"
proof -
  assume inv: "wx_inv s"
  show ?thesis
  proof (cases "wx s \<noteq> None \<and> \<not> fst (check_connection e s)")
    case True
    have "wx_inv (fst (snd (check_connection e s)))" using inv by (rule check_connection_inv)
    then have "wx_inv (fst (cleanup_instance e (fst (snd (check_connection e s)))))"
      by (rule cleanup_instance_inv)
    then have "wx_inv (fst (snd (create_instance e (fst (cleanup_instance e (fst (snd (check_connection e s))))))))"
      by (rule create_instance_inv)
    with True show ?thesis
      by (simp add: get_wx_instance_def Let_def case_prod_beta)
  next
    case False
    then show ?thesis
      using check_connection_inv [OF inv, of e] create_instance_inv [OF inv, of e]
      by (auto simp add: get_wx_instance_def Let_def case_prod_beta)
  qed
qed

lemma step_inv: "wx_inv s \<Longrightarrow> wx_inv (step s oe)"
  by (cases oe; cases "fst oe") (simp_all add: create_instance_inv check_connection_inv cleanup_instance_inv get_wx_instance_inv)

lemma foldl_step_inv: "wx_inv s \<Longrightarrow> wx_inv (foldl step s ops)"
  by (induction ops arbitrary: s) (simp_all add: step_inv)

lemma run_inv: "wx_inv (run ops)"
  unfolding run_def by (rule foldl_step_inv) (simp add: wx_inv_def wx_init_def)


subsection \<open>Retrying the creation\<close>

text \<open>
  An attempt fails when the window precheck fails, \<open>WeChat()\<close> raises, or the created
  instance lacks a non-empty nickname. The environments below are the concrete inputs
  of the examples: one in which everything succeeds, one without a WeChat window.
\<close>

definition attempt_fails :: "env \<Rightarrow> bool" where
  "attempt_fails e =
     (\<not> fst (check_wx_window_exists e)
      \<or> (case wechat_ctor e of Inl _ \<Rightarrow> True | Inr w \<Rightarrow> \<not> has_nickname w))"

definition wx_demo :: wechat where
  "wx_demo = \<lparr>wx_id = 1, nickname = Some [97, 108, 105, 99, 101], has_close = True\<rparr>"

definition env_ok :: env where
  "env_ok = \<lparr>find_window = Inr 66052, wechat_ctor = Inr wx_demo,
     get_session = Inr (Some []), close_result = Inr (), time_check = 1000, time_create = 1000\<rparr>"

definition env_no_window :: env where
  "env_no_window = env_ok\<lparr>find_window := Inr 0\<rparr>"

text \<open>
  C2. Bounded retries of \<open>_create_instance\<close>: below the limit, a failed attempt returns
  \<open>None\<close> and increments \<open>_retry_count\<close> by exactly 1; at \<open>_MAX_RETRY_COUNT = 3\<close> (or
  above) it returns \<open>None\<close> at once, with the state unchanged and no call made; a
  successful creation returns the instance and resets \<open>_retry_count\<close> to 0. Hence,
  after every sequence of operations from the initial state, \<open>_retry_count\<close> is at
  most 3.
\<close>

theorem create_instance_retry_bounded:
  "(retry_count s < MAX_RETRY_COUNT \<and> attempt_fails e \<longrightarrow>
      fst (create_instance e s) = None
      \<and> retry_count (fst (snd (create_instance e s))) = retry_count s + 1)
   \<and> (MAX_RETRY_COUNT \<le> retry_count s \<longrightarrow> create_instance e s = (None, s, []))
   \<and> (retry_count s < MAX_RETRY_COUNT \<and> \<not> attempt_fails e \<longrightarrow>
      fst (create_instance e s) \<noteq> None
      \<and> retry_count (fst (snd (create_instance e s))) = 0)
   \<and> MAX_RETRY_COUNT = 3
   \<and> retry_count (run ops) \<le> 3"
proof -
  have fails: "fst (create_instance e s) = None
      \<and> retry_count (fst (snd (create_instance e s))) = retry_count s + 1"
    if "retry_count s < MAX_RETRY_COUNT" "attempt_fails e"
    using that
    by (auto simp: create_instance_def attempt_fails_def Let_def case_prod_beta
        split: sum.splits)
  have stop: "create_instance e s = (None, s, [])" if "MAX_RETRY_COUNT \<le> retry_count s"
    using that by (simp add: create_instance_def)
  have succeeds: "fst (create_instance e s) \<noteq> None
      \<and> retry_count (fst (snd (create_instance e s))) = 0"
    if "retry_count s < MAX_RETRY_COUNT" "\<not> attempt_fails e"
    using that
    by (auto simp: create_instance_def attempt_fails_def Let_def case_prod_beta
        split: sum.splits)
  have bound: "retry_count (run ops) \<le> 3"
    using run_inv [of ops] by (simp add: wx_inv_def)
  show ?thesis
    using fails stop succeeds bound by (simp add: MAX_RETRY_COUNT_def)
qed

theorem create_instance_retry_bounded_witness:
  "retry_count wx_init < MAX_RETRY_COUNT \<and> attempt_fails env_no_window
   \<and> fst (create_instance env_no_window wx_init) = None
   \<and> retry_count (fst (snd (create_instance env_no_window wx_init))) = 1
   \<and> MAX_RETRY_COUNT \<le> retry_count (wx_init\<lparr>retry_count := 3\<rparr>)
   \<and> create_instance env_ok (wx_init\<lparr>retry_count := 3\<rparr>)
       = (None, wx_init\<lparr>retry_count := 3\<rparr>, [])
   \<and> retry_count (wx_init\<lparr>retry_count := 2\<rparr>) < MAX_RETRY_COUNT \<and> \<not> attempt_fails env_ok
   \<and> retry_count (fst (snd (create_instance env_ok (wx_init\<lparr>retry_count := 2\<rparr>)))) = 0
   \<and> retry_count (run [(Create_instance, env_no_window), (Create_instance, env_no_window),
        (Create_instance, env_no_window), (Create_instance, env_no_window)]) \<le> 3"
proof -
  have h1: "retry_count wx_init < MAX_RETRY_COUNT \<and> attempt_fails env_no_window"
    by (simp add: wx_init_def MAX_RETRY_COUNT_def attempt_fails_def env_no_window_def
        env_ok_def check_wx_window_exists_def)
  have h2: "MAX_RETRY_COUNT \<le> retry_count (wx_init\<lparr>retry_count := 3\<rparr>)"
    by (simp add: MAX_RETRY_COUNT_def)
  have h3: "retry_count (wx_init\<lparr>retry_count := 2\<rparr>) < MAX_RETRY_COUNT \<and> \<not> attempt_fails env_ok"
    by (simp add: MAX_RETRY_COUNT_def attempt_fails_def env_ok_def wx_demo_def
        check_wx_window_exists_def has_nickname_def)
  show ?thesis
    using h1 h2 h3
      create_instance_retry_bounded [of wx_init env_no_window
        "[(Create_instance, env_no_window), (Create_instance, env_no_window),
          (Create_instance, env_no_window), (Create_instance, env_no_window)]"]
      create_instance_retry_bounded [of "wx_init\<lparr>retry_count := 3\<rparr>" env_ok "[]"]
      create_instance_retry_bounded [of "wx_init\<lparr>retry_count := 2\<rparr>" env_ok "[]"]
    by (simp add: wx_init_def)
qed

text \<open>
  C3. Linear backoff: entered with \<open>_retry_count = k\<close>, \<open>0 < k < 3\<close>,
  \<open>_create_instance\<close> first sleeps \<open>2 * k\<close> seconds, then starts the attempt with the
  window precheck, and does not sleep again; entered with \<open>k = 0\<close> it starts the attempt
  at once and never sleeps.
\<close>

theorem create_instance_linear_backoff:
  "(0 < retry_count s \<and> retry_count s < MAX_RETRY_COUNT \<longrightarrow>
      (\<exists>rest. snd (snd (create_instance e s))
          = Sleep (of_int (2 * retry_count s)) # Called FindWindow (isl (find_window e)) # rest
        \<and> \<not> list_ex is_sleep rest))
   \<and> (retry_count s = 0 \<longrightarrow>
      (\<exists>rest. snd (snd (create_instance e s))
          = Called FindWindow (isl (find_window e)) # rest
        \<and> \<not> list_ex is_sleep rest))"
  by (auto simp: create_instance_def check_wx_window_exists_def MAX_RETRY_COUNT_def Let_def
      case_prod_beta is_sleep_def split: sum.splits)

theorem create_instance_linear_backoff_witness:
  "0 < retry_count (wx_init\<lparr>retry_count := 2\<rparr>)
   \<and> retry_count (wx_init\<lparr>retry_count := 2\<rparr>) < MAX_RETRY_COUNT
   \<and> snd (snd (create_instance env_ok (wx_init\<lparr>retry_count := 2\<rparr>)))
       = [Sleep 4, Called FindWindow False, Called WeChat False]
   \<and> retry_count wx_init = 0
   \<and> snd (snd (create_instance env_ok wx_init)) = [Called FindWindow False, Called WeChat False]"
  using create_instance_linear_backoff [of "wx_init\<lparr>retry_count := 2\<rparr>" env_ok]
    create_instance_linear_backoff [of wx_init env_ok]
  by (simp add: wx_init_def MAX_RETRY_COUNT_def create_instance_def env_ok_def wx_demo_def
      check_wx_window_exists_def has_nickname_def)


subsection \<open>The heartbeat\<close>






subsection \<open>The lifecycle\<close>





section \<open>The groups table (database.py)\<close>
























section \<open>Times in chat text (utils.py)\<close>

subsection \<open>Characters and the regular expressions\<close>

text \<open>
  For a \<open>str\<close> pattern, \<open>\d\<close> matches the Unicode decimal digits, which are also the
  characters \<open>int()\<close> reads as digits, and \<open>\s\<close> matches what \<open>str.strip()\<close> strips.
  Both tables belong to the interpreter (here Unicode 14): the digits come in runs of ten
  from each of the code points in \<open>decimal_zeros\<close>.
\<close>

definition decimal_zeros :: "int list" where
  "decimal_zeros =
     [48, 1632, 1776, 1984, 2406, 2534, 2662, 2790, 2918, 3046, 3174, 3302, 3430, 3558,
      3664, 3792, 3872, 4160, 4240, 6112, 6160, 6470, 6608, 6784, 6800, 6992, 7088, 7232,
      7248, 42528, 43216, 43264, 43472, 43504, 43600, 44016, 65296, 66720, 68912, 69734,
      69872, 69942, 70096, 70384, 70736, 70864, 71248, 71360, 71472, 71904, 72016, 72784,
      73040, 73120, 92768, 92864, 93008, 120782, 120792, 120802, 120812, 120822, 123200,
      123632, 125264, 130032]"

definition whitespace :: "int list" where
  "whitespace =
     [9, 10, 11, 12, 13, 28, 29, 30, 31, 32, 133, 160, 5760, 8192, 8193, 8194, 8195, 8196,
      8197, 8198, 8199, 8200, 8201, 8202, 8232, 8233, 8239, 8287, 12288]"

definition digit_value :: "int \<Rightarrow> int option" where
  "digit_value c =
     (case filter (\<lambda>z. z \<le> c \<and> c < z + 10) decimal_zeros of
        [] \<Rightarrow> None
      | z # _ \<Rightarrow> Some (c - z))"

definition is_digit :: "int \<Rightarrow> bool" where
  "is_digit c = (digit_value c \<noteq> None)"

definition is_space :: "int \<Rightarrow> bool" where
  "is_space c = (c \<in> set whitespace)"

text \<open>\<open>int(s)\<close> for a string of decimal digits, as the patterns capture them.\<close>

definition int_of_digits :: "ustr \<Rightarrow> int" where
  "int_of_digits s =
     foldl (\<lambda>n c. 10 * n + (case digit_value c of Some v \<Rightarrow> v | None \<Rightarrow> 0)) 0 s"

text \<open>
  \<open>int(s)\<close> raises \<open>ValueError\<close> for a string of more digits than the interpreter's
  limit, 4300 by default. Only the groups \<open>(\d+)\<close> can be that long; the groups of
  at most four digits are read with \<open>int_of_digits\<close> directly.
\<close>

definition int_max_str_digits :: nat where
  "int_max_str_digits = 4300"

definition py_int :: "ustr \<Rightarrow> error + int" where
  "py_int s = (if length s > int_max_str_digits then Inl ValueError else Inr (int_of_digits s))"

definition strip :: "ustr \<Rightarrow> ustr" where
  "strip s = rev (dropWhile is_space (rev (dropWhile is_space s)))"

text \<open>
  The patterns are matched by hand. Each is anchored at both ends and is deterministic:
  a run of digits or of white space is always followed by a character outside its
  class, so the run a greedy quantifier takes is the longest one and no shorter one can
  match. \<open>$\<close> matches at the end of the text and also just before a line feed that ends
  it.
\<close>

definition at_end :: "ustr \<Rightarrow> bool" where
  "at_end r = (r = [] \<or> r = [10])"

definition literal :: "ustr \<Rightarrow> ustr \<Rightarrow> ustr option" where
  "literal p s = (if take (length p) s = p then Some (drop (length p) s) else None)"

text \<open>\<open>(\d{lo,hi})\<close> before a character that is no digit: the group and the rest.\<close>

definition digits :: "nat \<Rightarrow> nat \<Rightarrow> ustr \<Rightarrow> (ustr \<times> ustr) option" where
  "digits lo hi s =
     (let g = takeWhile is_digit s in
      if lo \<le> length g \<and> length g \<le> hi then Some (g, dropWhile is_digit s) else None)"

text \<open>\<open>(\d+)\<close> before a character that is no digit.\<close>

definition digits1 :: "ustr \<Rightarrow> (ustr \<times> ustr) option" where
  "digits1 s =
     (let g = takeWhile is_digit s in
      if g \<noteq> [] then Some (g, dropWhile is_digit s) else None)"

text \<open>\<open>(\d{1,2}):(\d{2})$\<close>\<close>

definition hour_minute :: "ustr \<Rightarrow> (ustr \<times> ustr) option" where
  "hour_minute s =
     (case digits 1 2 s of
        None \<Rightarrow> None
      | Some (h, r) \<Rightarrow>
          (case literal [58] r of
             None \<Rightarrow> None
           | Some r1 \<Rightarrow>
               (case digits 2 2 r1 of
                  None \<Rightarrow> None
                | Some (m, r2) \<Rightarrow> if at_end r2 then Some (h, m) else None)))"

text \<open>
  \<open>(?:\s+(\d{1,2}):(\d{2}))?$\<close>: \<open>None\<close> when the rest does not match,
  \<open>Some None\<close> when it matches without the optional group, \<open>Some (Some (h, m))\<close> with it.
\<close>

definition opt_hour_minute :: "ustr \<Rightarrow> (ustr \<times> ustr) option option" where
  "opt_hour_minute r =
     (case (if takeWhile is_space r \<noteq> [] then hour_minute (dropWhile is_space r) else None) of
        Some hm \<Rightarrow> Some (Some hm)
      | None \<Rightarrow> if at_end r then Some None else None)"

subsection \<open>Dates and times\<close>

text \<open>
  A naive \<open>datetime\<close> is its seven fields. The calendar arithmetic is that of Python's
  \<open>datetime\<close> module: proleptic Gregorian, day 1 is 0001-01-01, the last day is
  9999-12-31 (ordinal 3652059).
\<close>

record datetime =
  year :: int
  month :: int
  day :: int
  hour :: int
  minute :: int
  second :: int
  microsecond :: int

definition MINYEAR :: int where "MINYEAR = 1"
definition MAXYEAR :: int where "MAXYEAR = 9999"
definition MAXORDINAL :: int where "MAXORDINAL = 3652059"

definition is_leap :: "int \<Rightarrow> bool" where
  "is_leap y = (y mod 4 = 0 \<and> (y mod 100 \<noteq> 0 \<or> y mod 400 = 0))"

definition days_before_year :: "int \<Rightarrow> int" where
  "days_before_year y = (let y1 = y - 1 in y1 * 365 + y1 div 4 - y1 div 100 + y1 div 400)"

definition DAYS_IN_MONTH :: "int list" where
  "DAYS_IN_MONTH = [31, 28, 31, 30, 31, 30, 31, 31, 30, 31, 30, 31]"

definition DAYS_BEFORE_MONTH :: "int list" where
  "DAYS_BEFORE_MONTH = [0, 31, 59, 90, 120, 151, 181, 212, 243, 273, 304, 334]"

text \<open>The two tables are read at months 1 to 12 only.\<close>

definition days_in_month :: "int \<Rightarrow> int \<Rightarrow> int" where
  "days_in_month y m =
     (if m = 2 \<and> is_leap y then 29 else DAYS_IN_MONTH ! nat (m - 1))"

definition days_before_month :: "int \<Rightarrow> int \<Rightarrow> int" where
  "days_before_month y m =
     DAYS_BEFORE_MONTH ! nat (m - 1) + (if m > 2 \<and> is_leap y then 1 else 0)"

definition ymd2ord :: "int \<Rightarrow> int \<Rightarrow> int \<Rightarrow> int" where
  "ymd2ord y m d = days_before_year y + days_before_month y m + d"

text \<open>
  From a day of the year (counted from 0) to the month and the day of the month: the
  month is estimated and the estimate corrected by the table.
\<close>

definition month_day :: "bool \<Rightarrow> int \<Rightarrow> int \<times> int" where
  "month_day leapyear n =
     (let m = (n + 50) div 32;
          preceding = DAYS_BEFORE_MONTH ! nat (m - 1) + (if m > 2 \<and> leapyear then 1 else 0)
      in
        if preceding > n then
          (let m' = m - 1;
               preceding' = preceding
                 - (DAYS_IN_MONTH ! nat (m' - 1) + (if m' = 2 \<and> leapyear then 1 else 0))
           in (m', n - preceding' + 1))
        else (m, n - preceding + 1))"

text \<open>
  From an ordinal to year, month and day, by the cycles of 400, 100, 4 and 1 years.
\<close>

definition ord2ymd :: "int \<Rightarrow> int \<times> int \<times> int" where
  "ord2ymd n0 =
     (let n = n0 - 1;
          n400 = n div 146097; n = n mod 146097;
          n100 = n div 36524; n = n mod 36524;
          n4 = n div 1461; n = n mod 1461;
          n1 = n div 365; n = n mod 365;
          y = n400 * 400 + 1 + n100 * 100 + n4 * 4 + n1
      in
        if n1 = 4 \<or> n100 = 4 then (y - 1, 12, 31)
        else (y, month_day (n1 = 3 \<and> (n4 \<noteq> 24 \<or> n100 = 3)) n))"

text \<open>
  The constructor \<open>datetime(year, month, day, hour, minute, second, microsecond)\<close>
  checks every field and raises \<open>ValueError\<close> on the first that is out of range.
\<close>

definition datetime_new ::
  "int \<Rightarrow> int \<Rightarrow> int \<Rightarrow> int \<Rightarrow> int \<Rightarrow> int \<Rightarrow> int \<Rightarrow> error + datetime" where
  "datetime_new y m d hh mm ss us =
     (if \<not> (MINYEAR \<le> y \<and> y \<le> MAXYEAR) then Inl ValueError
      else if \<not> (1 \<le> m \<and> m \<le> 12) then Inl ValueError
      else if \<not> (1 \<le> d \<and> d \<le> days_in_month y m) then Inl ValueError
      else if \<not> (0 \<le> hh \<and> hh \<le> 23) then Inl ValueError
      else if \<not> (0 \<le> mm \<and> mm \<le> 59) then Inl ValueError
      else if \<not> (0 \<le> ss \<and> ss \<le> 59) then Inl ValueError
      else if \<not> (0 \<le> us \<and> us \<le> 999999) then Inl ValueError
      else Inr \<lparr>year = y, month = m, day = d, hour = hh, minute = mm, second = ss,
                microsecond = us\<rparr>)"

text \<open>\<open>dt.replace(hour=hh, minute=mm, second=0, microsecond=0)\<close>\<close>

definition replace_time :: "datetime \<Rightarrow> int \<Rightarrow> int \<Rightarrow> error + datetime" where
  "replace_time dt hh mm = datetime_new (year dt) (month dt) (day dt) hh mm 0 0"

definition toordinal :: "datetime \<Rightarrow> int" where
  "toordinal dt = ymd2ord (year dt) (month dt) (day dt)"

definition weekday :: "datetime \<Rightarrow> int" where
  "weekday dt = (toordinal dt + 6) mod 7"

text \<open>
  A \<open>timedelta\<close> is normalised to days, seconds (below 86400) and microseconds; the
  constructor raises \<open>OverflowError\<close> when the days pass 999999999 in magnitude. The
  code builds only whole days, minutes and hours.
\<close>

record timedelta =
  td_days :: int
  td_seconds :: int
  td_microseconds :: int

definition timedelta_of_seconds :: "int \<Rightarrow> error + timedelta" where
  "timedelta_of_seconds s =
     (let d = s div 86400 in
      if abs d > 999999999 then Inl OverflowError
      else Inr \<lparr>td_days = d, td_seconds = s mod 86400, td_microseconds = 0\<rparr>)"

definition timedelta_days :: "int \<Rightarrow> error + timedelta" where
  "timedelta_days n = timedelta_of_seconds (n * 86400)"

definition timedelta_hours :: "int \<Rightarrow> error + timedelta" where
  "timedelta_hours n = timedelta_of_seconds (n * 3600)"

definition timedelta_minutes :: "int \<Rightarrow> error + timedelta" where
  "timedelta_minutes n = timedelta_of_seconds (n * 60)"

text \<open>
  \<open>dt - delta\<close>: the fields are subtracted and carried, and the date must stay within
  the calendar, else \<open>OverflowError\<close>.
\<close>

definition datetime_sub :: "datetime \<Rightarrow> timedelta \<Rightarrow> error + datetime" where
  "datetime_sub dt delta =
     (let us = microsecond dt - td_microseconds delta;
          s = hour dt * 3600 + minute dt * 60 + second dt - td_seconds delta + us div 1000000;
          n = toordinal dt - td_days delta + s div 86400;
          sod = s mod 86400
      in
        if 0 < n \<and> n \<le> MAXORDINAL then
          (let (y, m, d) = ord2ymd n in
           Inr \<lparr>year = y, month = m, day = d, hour = sod div 3600,
                 minute = sod mod 3600 div 60, second = sod mod 60,
                 microsecond = us mod 1000000\<rparr>)
        else Inl OverflowError)"

text \<open>\<open>dt - timedelta(...)\<close>, with the exception of either step.\<close>

definition minus_delta :: "datetime \<Rightarrow> error + timedelta \<Rightarrow> error + datetime" where
  "minus_delta dt delta = (case delta of Inl err \<Rightarrow> Inl err | Inr d \<Rightarrow> datetime_sub dt d)"

text \<open>Naive datetimes compare field by field, the year first.\<close>

fun lex_less :: "int list \<Rightarrow> int list \<Rightarrow> bool" where
  "lex_less (x # xs) (y # ys) = (x < y \<or> (x = y \<and> lex_less xs ys))"
| "lex_less _ _ = False"

definition fields :: "datetime \<Rightarrow> int list" where
  "fields dt = [year dt, month dt, day dt, hour dt, minute dt, second dt, microsecond dt]"

definition dt_less :: "datetime \<Rightarrow> datetime \<Rightarrow> bool" where
  "dt_less a b = lex_less (fields a) (fields b)"

definition dt_ge :: "datetime \<Rightarrow> datetime \<Rightarrow> bool" where
  "dt_ge a b = (\<not> dt_less a b)"

subsection \<open>\<open>parse_wechat_time\<close>\<close>

text \<open>
  \<open>with_time d hm\<close> is the common ending of the relative patterns: the day \<open>d\<close> at the
  captured hour and minute, or at midnight without them. The absolute patterns build
  the result with the constructor instead (\<open>build_date\<close>).
\<close>

definition with_time :: "datetime \<Rightarrow> (ustr \<times> ustr) option \<Rightarrow> error + datetime option" where
  "with_time d hm =
     (case hm of
        Some (h, m) \<Rightarrow>
          (case replace_time d (int_of_digits h) (int_of_digits m) of
             Inl err \<Rightarrow> Inl err | Inr r \<Rightarrow> Inr (Some r))
      | None \<Rightarrow>
          (case replace_time d 0 0 of Inl err \<Rightarrow> Inl err | Inr r \<Rightarrow> Inr (Some r)))"

definition build_date ::
  "int \<Rightarrow> int \<Rightarrow> int \<Rightarrow> (ustr \<times> ustr) option \<Rightarrow> error + datetime option" where
  "build_date y m d hm =
     (case hm of
        Some (hh, mm) \<Rightarrow>
          (case datetime_new y m d (int_of_digits hh) (int_of_digits mm) 0 0 of
             Inl err \<Rightarrow> Inl err | Inr r \<Rightarrow> Inr (Some r))
      | None \<Rightarrow>
          (case datetime_new y m d 0 0 0 0 of Inl err \<Rightarrow> Inl err | Inr r \<Rightarrow> Inr (Some r)))"

text \<open>The matches of the eight patterns, in the order the function tries them.\<close>

definition match_minutes_ago :: "ustr \<Rightarrow> ustr option" where
  "match_minutes_ago s =
     (case digits1 s of
        None \<Rightarrow> None
      | Some (n, r) \<Rightarrow>
          (case literal [20998, 38047, 21069] r of
             None \<Rightarrow> None
           | Some r1 \<Rightarrow> if at_end r1 then Some n else None))"

definition match_hours_ago :: "ustr \<Rightarrow> ustr option" where
  "match_hours_ago s =
     (case digits1 s of
        None \<Rightarrow> None
      | Some (n, r) \<Rightarrow>
          (case literal [23567, 26102, 21069] r of
             None \<Rightarrow> None
           | Some r1 \<Rightarrow> if at_end r1 then Some n else None))"

definition match_yesterday :: "ustr \<Rightarrow> (ustr \<times> ustr) option option" where
  "match_yesterday s =
     (case literal [26152, 22825] s of None \<Rightarrow> None | Some r \<Rightarrow> opt_hour_minute r)"

definition match_day_before :: "ustr \<Rightarrow> (ustr \<times> ustr) option option" where
  "match_day_before s =
     (case literal [21069, 22825] s of None \<Rightarrow> None | Some r \<Rightarrow> opt_hour_minute r)"

definition weekday_map :: "int \<Rightarrow> int option" where
  "weekday_map c =
     (if c = 19968 then Some 0 else if c = 20108 then Some 1 else if c = 19977 then Some 2
      else if c = 22235 then Some 3 else if c = 20116 then Some 4 else if c = 20845 then Some 5
      else if c = 26085 then Some 6 else if c = 22825 then Some 6 else None)"

definition match_weekday :: "ustr \<Rightarrow> (int \<times> (ustr \<times> ustr) option) option" where
  "match_weekday s =
     (case (case literal [21608] s of
              Some r \<Rightarrow> Some r
            | None \<Rightarrow> literal [26143, 26399] s) of
        None \<Rightarrow> None
      | Some r \<Rightarrow>
          (case r of
             [] \<Rightarrow> None
           | c # r1 \<Rightarrow>
               (case weekday_map c of
                  None \<Rightarrow> None
                | Some target_weekday \<Rightarrow>
                    (case opt_hour_minute r1 of
                       None \<Rightarrow> None
                     | Some hm \<Rightarrow> Some (target_weekday, hm)))))"

definition match_month_day :: "ustr \<Rightarrow> (ustr \<times> ustr \<times> (ustr \<times> ustr) option) option" where
  "match_month_day s =
     (case digits 1 2 s of
        None \<Rightarrow> None
      | Some (m, r) \<Rightarrow>
          (case literal [26376] r of
             None \<Rightarrow> None
           | Some r1 \<Rightarrow>
               (case digits 1 2 r1 of
                  None \<Rightarrow> None
                | Some (d, r2) \<Rightarrow>
                    (case literal [26085] r2 of
                       None \<Rightarrow> None
                     | Some r3 \<Rightarrow>
                         (case opt_hour_minute r3 of
                            None \<Rightarrow> None
                          | Some hm \<Rightarrow> Some (m, d, hm))))))"

definition match_year_month_day ::
  "ustr \<Rightarrow> (ustr \<times> ustr \<times> ustr \<times> (ustr \<times> ustr) option) option" where
  "match_year_month_day s =
     (case digits 4 4 s of
        None \<Rightarrow> None
      | Some (y, r) \<Rightarrow>
          (case literal [24180] r of
             None \<Rightarrow> None
           | Some r0 \<Rightarrow>
               (case match_month_day r0 of
                  None \<Rightarrow> None
                | Some (m, d, hm) \<Rightarrow> Some (y, m, d, hm))))"

text \<open>
  \<open>parse_wechat_time(time_text, base_time)\<close>; \<open>now\<close> is what \<open>datetime.now()\<close> would
  return. \<open>Inr None\<close> is the return value \<open>None\<close>, \<open>Inl\<close> an exception that leaves
  the function.
\<close>

definition parse_wechat_time ::
  "datetime \<Rightarrow> ustr \<Rightarrow> datetime option \<Rightarrow> error + datetime option" where
  "parse_wechat_time now time_text0 base_time0 =
     (if time_text0 = [] then Inr None
      else
        let base_time = (case base_time0 of None \<Rightarrow> now | Some b \<Rightarrow> b);
            time_text = strip time_text0
        in
          if time_text = [21018, 21018] then Inr (Some base_time)
          else case hour_minute time_text of
            Some (h, m) \<Rightarrow>
              (case replace_time base_time (int_of_digits h) (int_of_digits m) of
                 Inl err \<Rightarrow> Inl err | Inr r \<Rightarrow> Inr (Some r))
          | None \<Rightarrow>
          (case match_minutes_ago time_text of
            Some n \<Rightarrow>
              (case py_int n of
                 Inl err \<Rightarrow> Inl err
               | Inr minutes \<Rightarrow>
                   (case minus_delta base_time (timedelta_minutes minutes) of
                      Inl err \<Rightarrow> Inl err | Inr r \<Rightarrow> Inr (Some r)))
          | None \<Rightarrow>
          (case match_hours_ago time_text of
            Some n \<Rightarrow>
              (case py_int n of
                 Inl err \<Rightarrow> Inl err
               | Inr hours \<Rightarrow>
                   (case minus_delta base_time (timedelta_hours hours) of
                      Inl err \<Rightarrow> Inl err | Inr r \<Rightarrow> Inr (Some r)))
          | None \<Rightarrow>
          (case match_yesterday time_text of
            Some hm \<Rightarrow>
              (case minus_delta base_time (timedelta_days 1) of
                 Inl err \<Rightarrow> Inl err | Inr yesterday \<Rightarrow> with_time yesterday hm)
          | None \<Rightarrow>
          (case match_day_before time_text of
            Some hm \<Rightarrow>
              (case minus_delta base_time (timedelta_days 2) of
                 Inl err \<Rightarrow> Inl err
               | Inr day_before_yesterday \<Rightarrow> with_time day_before_yesterday hm)
          | None \<Rightarrow>
          (case match_weekday time_text of
            Some (target_weekday, hm) \<Rightarrow>
              (let current_weekday = weekday base_time;
                   days_diff0 = (current_weekday - target_weekday) mod 7;
                   days_diff = (if days_diff0 = 0 then 7 else days_diff0)
               in case minus_delta base_time (timedelta_days days_diff) of
                    Inl err \<Rightarrow> Inl err | Inr target_date \<Rightarrow> with_time target_date hm)
          | None \<Rightarrow>
          (case match_month_day time_text of
            Some (m, d, hm) \<Rightarrow>
              (let mon = int_of_digits m; dd = int_of_digits d; y = year base_time in
               case datetime_new y mon dd 0 0 0 0 of
                 Inl err \<Rightarrow> Inl err
               | Inr temp_date \<Rightarrow>
                   build_date (if dt_less base_time temp_date then y - 1 else y) mon dd hm)
          | None \<Rightarrow>
          (case match_year_month_day time_text of
            Some (y, m, d, hm) \<Rightarrow>
              build_date (int_of_digits y) (int_of_digits m) (int_of_digits d) hm
          | None \<Rightarrow> Inr None))))))))"

text \<open>
  C6. \<open>parse_wechat_time\<close> is meant to return \<open>None\<close> for every text it cannot
  parse and never to raise. It raises for texts that match a pattern but name no time:
  on \<open>'25:00'\<close> the second pattern matches and \<open>replace(hour=25, ...)\<close> raises
  \<open>ValueError\<close>, whatever the base time.
\<close>

theorem parse_wechat_time_raises:
  "parse_wechat_time now [50, 53, 58, 48, 48] base_time = Inl ValueError"
  by (simp add: parse_wechat_time_def strip_def is_space_def whitespace_def hour_minute_def digits_def
      is_digit_def digit_value_def decimal_zeros_def literal_def at_end_def
      replace_time_def datetime_new_def int_of_digits_def Let_def)

subsection \<open>\<open>calculate_cutoff_time\<close>\<close>

text \<open>\<open>^\<close>, the character, \<open>(\d+)\<close>, the character, \<open>$\<close>: the pattern of the range.\<close>

definition match_recent_days :: "ustr \<Rightarrow> ustr option" where
  "match_recent_days s =
     (case literal [36817] s of
        None \<Rightarrow> None
      | Some r \<Rightarrow>
          (case digits1 r of
             None \<Rightarrow> None
           | Some (n, r1) \<Rightarrow>
               (case literal [22825] r1 of
                  None \<Rightarrow> None
                | Some r2 \<Rightarrow> if at_end r2 then Some n else None)))"

definition startswith :: "ustr \<Rightarrow> ustr \<Rightarrow> bool" where
  "startswith s p = (take (length p) s = p)"

definition endswith :: "ustr \<Rightarrow> ustr \<Rightarrow> bool" where
  "endswith s p = (length p \<le> length s \<and> drop (length s - length p) s = p)"

definition calculate_cutoff_time :: "datetime \<Rightarrow> ustr \<Rightarrow> datetime option \<Rightarrow> error + datetime" where
  "calculate_cutoff_time now date_range base_time0 =
     (let base_time = (case base_time0 of None \<Rightarrow> now | Some b \<Rightarrow> b) in
      if date_range = [20170, 22825] then replace_time base_time 0 0
      else if startswith date_range [36817] \<and> endswith date_range [22825] then
        (case match_recent_days date_range of
           Some n \<Rightarrow>
             (case py_int n of
                Inl err \<Rightarrow> Inl err
              | Inr days \<Rightarrow>
                  (case minus_delta base_time (timedelta_days (days - 1)) of
                     Inl err \<Rightarrow> Inl err
                   | Inr target_date \<Rightarrow> replace_time target_date 0 0))
         | None \<Rightarrow> Inl ValueError)
      else Inl ValueError)"


subsection \<open>The calendar arithmetic is sound\<close>

text \<open>
  Every ordinal from 1 to 3652059 is a date the constructor accepts, and the date's
  ordinal is the one it came from. The two tables are checked by running through the
  days of a year and the years of a 400-year cycle.
\<close>

definition valid_date :: "int \<Rightarrow> int \<Rightarrow> int \<Rightarrow> bool" where
  "valid_date y m d =
     (MINYEAR \<le> y \<and> y \<le> MAXYEAR \<and> 1 \<le> m \<and> m \<le> 12 \<and> 1 \<le> d \<and> d \<le> days_in_month y m)"

definition month_day_ok :: "bool \<Rightarrow> int \<Rightarrow> bool" where
  "month_day_ok lp n =
     (let (m, d) = month_day lp n in
      1 \<le> m \<and> m \<le> 12 \<and> 1 \<le> d
      \<and> d \<le> (if m = 2 \<and> lp then 29 else DAYS_IN_MONTH ! nat (m - 1))
      \<and> DAYS_BEFORE_MONTH ! nat (m - 1) + (if m > 2 \<and> lp then 1 else 0) + d = n + 1)"

lemma leap_table:
  "list_all (\<lambda>n100. list_all (\<lambda>n4. list_all (\<lambda>n1.
      is_leap (1 + n100 * 100 + n4 * 4 + n1) = (n1 = 3 \<and> (n4 \<noteq> 24 \<or> n100 = 3)))
      [0..3]) [0..24]) [0..3]"
  by code_simp
lemma is_leap_cycle: "is_leap (n400 * 400 + c) = is_leap c"
proof -
  have "n400 * 400 = n400 * 100 * 4" by simp
  then have m4: "(n400 * 400 + c) mod 4 = c mod 4"
    by (simp only: mod_mult_self3)
  have "n400 * 400 = n400 * 4 * 100" by simp
  then have m100: "(n400 * 400 + c) mod 100 = c mod 100"
    by (simp only: mod_mult_self3)
  have m400: "(n400 * 400 + c) mod 400 = c mod 400"
    by (rule mod_mult_self3)
  show ?thesis unfolding is_leap_def by (simp only: m4 m100 m400)
qed

lemma leap_decomp:
  assumes "0 \<le> n100" "n100 \<le> 3" "0 \<le> n4" "n4 \<le> 24" "0 \<le> n1" "n1 \<le> 3"
  shows "is_leap (n400 * 400 + 1 + n100 * 100 + n4 * 4 + n1)
           = (n1 = 3 \<and> (n4 \<noteq> 24 \<or> n100 = 3))"
proof -
  have "n100 \<in> set [0..3]" "n4 \<in> set [0..24]" "n1 \<in> set [0..3]"
    using assms by simp_all
  then have "is_leap (1 + n100 * 100 + n4 * 4 + n1) = (n1 = 3 \<and> (n4 \<noteq> 24 \<or> n100 = 3))"
    using leap_table unfolding list_all_iff by blast
  moreover have "n400 * 400 + 1 + n100 * 100 + n4 * 4 + n1
      = n400 * 400 + (1 + n100 * 100 + n4 * 4 + n1)"
    by simp
  ultimately show ?thesis
    using is_leap_cycle [of n400 "1 + n100 * 100 + n4 * 4 + n1"] by (simp only:)
qed


lemma month_day_table:
  "list_all (\<lambda>n. month_day_ok False n \<and> month_day_ok True n) [0..364]"
  by code_simp

lemma month_day_valid:
  assumes "0 \<le> n" "n \<le> 364"
  shows "month_day_ok lp n"
proof -
  have "n \<in> set [0..364]" using assms by simp
  then have "month_day_ok False n \<and> month_day_ok True n"
    using month_day_table unfolding list_all_iff by blast
  then show ?thesis by (cases lp) simp_all
qed



lemma div_decomp: "0 \<le> r \<Longrightarrow> r < b \<Longrightarrow> (q * b + r) div b = (q::int)"
  by simp

lemma days_before_year_decomp:
  assumes "0 \<le> n100" "n100 \<le> 3" "0 \<le> n4" "n4 \<le> 24" "0 \<le> n1" "n1 \<le> 3"
  shows "days_before_year (n400 * 400 + 1 + n100 * 100 + n4 * 4 + n1)
           = 146097 * n400 + 36524 * n100 + 1461 * n4 + 365 * n1"
proof -
  define y1 where "y1 = n400 * 400 + n100 * 100 + n4 * 4 + n1"
  have "y1 = (n400 * 100 + n100 * 25 + n4) * 4 + n1"
    by (simp add: y1_def)
  then have d4: "y1 div 4 = n400 * 100 + n100 * 25 + n4"
    using div_decomp [of n1 4 "n400 * 100 + n100 * 25 + n4"] assms by simp
  have "y1 = (n400 * 4 + n100) * 100 + (n4 * 4 + n1)"
    by (simp add: y1_def)
  then have d100: "y1 div 100 = n400 * 4 + n100"
    using div_decomp [of "n4 * 4 + n1" 100 "n400 * 4 + n100"] assms by simp
  have "y1 = n400 * 400 + (n100 * 100 + n4 * 4 + n1)"
    by (simp add: y1_def)
  then have d400: "y1 div 400 = n400"
    using div_decomp [of "n100 * 100 + n4 * 4 + n1" 400 n400] assms by simp
  have "n400 * 400 + 1 + n100 * 100 + n4 * 4 + n1 - 1 = y1"
    by (simp add: y1_def)
  then have "days_before_year (n400 * 400 + 1 + n100 * 100 + n4 * 4 + n1)
      = y1 * 365 + y1 div 4 - y1 div 100 + y1 div 400"
    unfolding days_before_year_def Let_def by (simp only:)
  also have "\<dots> = 146097 * n400 + 36524 * n100 + 1461 * n4 + 365 * n1"
    unfolding d4 d100 d400 by (simp add: y1_def)
  finally show ?thesis .
qed


lemma december_31:
  assumes "0 \<le> n100" "n100 \<le> 3" "0 \<le> n4" "n4 \<le> 23" "0 \<le> n400" "n400 \<le> 24"
  defines "y \<equiv> n400 * 400 + 1 + n100 * 100 + n4 * 4 + 3"
  shows "valid_date y 12 31
     \<and> ymd2ord y 12 31 = 146097 * n400 + 36524 * n100 + 1461 * n4 + 1461"
proof -
  have leap: "is_leap y"
    unfolding y_def using leap_decomp [of n100 n4 3 n400] assms(1-4) by simp
  have dby: "days_before_year y = 146097 * n400 + 36524 * n100 + 1461 * n4 + 365 * 3"
    unfolding y_def using days_before_year_decomp [of n100 n4 3 n400] assms(1-4) by simp
  have "1 \<le> y" "y \<le> 9999"
    using assms(1-6) by (simp_all add: y_def)
  then have "valid_date y 12 31"
    by (simp add: valid_date_def MINYEAR_def MAXYEAR_def days_in_month_def DAYS_IN_MONTH_def)
  moreover have "ymd2ord y 12 31 = 146097 * n400 + 36524 * n100 + 1461 * n4 + 1461"
    using leap dby by (simp add: ymd2ord_def days_before_month_def DAYS_BEFORE_MONTH_def)
  ultimately show ?thesis by simp
qed

lemma ord2ymd_core:
  assumes nonneg: "0 \<le> n400" "0 \<le> n100" "0 \<le> n4" "0 \<le> n1" "0 \<le> r4"
    and r4: "r4 \<le> 364"
    and r3: "365 * n1 + r4 \<le> 1460"
    and r2: "1461 * n4 + 365 * n1 + r4 \<le> 36523"
    and r1: "36524 * n100 + 1461 * n4 + 365 * n1 + r4 \<le> 146096"
    and k: "146097 * n400 + 36524 * n100 + 1461 * n4 + 365 * n1 + r4 = k - 1"
    and max: "k \<le> 3652059"
  defines "y \<equiv> n400 * 400 + 1 + n100 * 100 + n4 * 4 + n1"
  defines "res \<equiv> (if n1 = 4 \<or> n100 = 4 then (y - 1, 12, 31)
                   else (y, month_day (n1 = 3 \<and> (n4 \<noteq> 24 \<or> n100 = 3)) r4))"
  shows "valid_date (fst res) (fst (snd res)) (snd (snd res))
     \<and> ymd2ord (fst res) (fst (snd res)) (snd (snd res)) = k"
proof -
  have b400: "n400 \<le> 24" using nonneg k max by linarith
  have b100: "n100 \<le> 4" using nonneg r1 by linarith
  have b4: "n4 \<le> 24" using nonneg r2 by linarith
  have b1: "n1 \<le> 4" using nonneg r3 by linarith
  show ?thesis
  proof (cases "n100 = 4")
    case True
    then have z: "n4 = 0" "n1 = 0" "r4 = 0" using nonneg r1 by linarith+
    have n400': "n400 \<le> 23" using True z k max by linarith
    have "y - 1 = n400 * 400 + 1 + 3 * 100 + 24 * 4 + 3 - 1 + 1"
      using True z by (simp add: y_def)
    have res: "res = (n400 * 400 + 400, 12, 31)"
      using True z by (simp add: res_def y_def)
    have leap: "is_leap (n400 * 400 + 400)"
      using leap_decomp [of 3 24 3 n400] by (simp add: add.commute)
    have dby: "days_before_year (n400 * 400 + 400) = 146097 * n400 + 145731"
      using days_before_year_decomp [of 3 24 3 n400] by (simp add: add.commute)
    have "valid_date (n400 * 400 + 400) 12 31"
      using n400' nonneg(1)
      by (simp add: valid_date_def MINYEAR_def MAXYEAR_def days_in_month_def DAYS_IN_MONTH_def)
    moreover have "ymd2ord (n400 * 400 + 400) 12 31 = k"
      using leap dby k True z
      by (simp add: ymd2ord_def days_before_month_def DAYS_BEFORE_MONTH_def)
    ultimately show ?thesis using res by simp
  next
    case False
    then have c100: "n100 \<le> 3" using b100 by simp
    show ?thesis
    proof (cases "n1 = 4")
      case True
      then have z: "r4 = 0" using nonneg r3 by linarith
      have c4: "n4 \<le> 23" using True nonneg r2 by linarith
      have res: "res = (n400 * 400 + 1 + n100 * 100 + n4 * 4 + 3, 12, 31)"
        using True by (simp add: res_def y_def)
      show ?thesis
        unfolding res using december_31 [OF nonneg(2) c100 nonneg(3) c4 nonneg(1) b400] k True z
        by simp
    next
      case n1: False
      then have c1: "n1 \<le> 3" using b1 by simp
      define lp where "lp = (n1 = 3 \<and> (n4 \<noteq> 24 \<or> n100 = 3))"
      obtain m d where md: "month_day lp r4 = (m, d)"
        by (cases "month_day lp r4")
      have res: "res = (y, m, d)"
        using False n1 md by (simp add: res_def lp_def)
      have leap: "is_leap y = lp"
        unfolding y_def lp_def using leap_decomp [OF nonneg(2) c100 nonneg(3) b4 nonneg(4) c1] .
      have dby: "days_before_year y = 146097 * n400 + 36524 * n100 + 1461 * n4 + 365 * n1"
        unfolding y_def
        using days_before_year_decomp [OF nonneg(2) c100 nonneg(3) b4 nonneg(4) c1] .
      have ok: "month_day_ok lp r4"
        using nonneg(5) r4 by (rule month_day_valid)
      have m: "1 \<le> m" "m \<le> 12" "1 \<le> d"
        and dim: "d \<le> (if m = 2 \<and> lp then 29 else DAYS_IN_MONTH ! nat (m - 1))"
        and dbm: "DAYS_BEFORE_MONTH ! nat (m - 1) + (if m > 2 \<and> lp then 1 else 0) + d = r4 + 1"
        using ok md by (simp_all add: month_day_ok_def)
      have y1: "1 \<le> y" using nonneg by (simp add: y_def)
      have y2: "y \<le> 9999"
        unfolding y_def using b400 c100 b4 c1 nonneg k max by linarith
      have "valid_date y m d"
        using y1 y2 m dim leap
        by (simp add: valid_date_def MINYEAR_def MAXYEAR_def days_in_month_def)
      moreover have "ymd2ord y m d = k"
        using dby dbm leap k by (simp add: ymd2ord_def days_before_month_def)
      ultimately show ?thesis using res by simp
    qed
  qed
qed

lemma ord2ymd_correct:
  assumes "1 \<le> k" "k \<le> MAXORDINAL"
  shows "valid_date (fst (ord2ymd k)) (fst (snd (ord2ymd k))) (snd (snd (ord2ymd k)))
     \<and> ymd2ord (fst (ord2ymd k)) (fst (snd (ord2ymd k))) (snd (snd (ord2ymd k))) = k"
proof -
  define n400 where "n400 = (k - 1) div 146097"
  define r1 where "r1 = (k - 1) mod 146097"
  define n100 where "n100 = r1 div 36524"
  define r2 where "r2 = r1 mod 36524"
  define n4 where "n4 = r2 div 1461"
  define r3 where "r3 = r2 mod 1461"
  define n1 where "n1 = r3 div 365"
  define r4 where "r4 = r3 mod 365"
  have e1: "k - 1 = 146097 * n400 + r1" and b1: "0 \<le> r1" "r1 \<le> 146096"
    unfolding n400_def r1_def by simp_all
  have e2: "r1 = 36524 * n100 + r2" and b2: "0 \<le> r2" "r2 \<le> 36523"
    unfolding n100_def r2_def by simp_all
  have e3: "r2 = 1461 * n4 + r3" and b3: "0 \<le> r3" "r3 \<le> 1460"
    unfolding n4_def r3_def by simp_all
  have e4: "r3 = 365 * n1 + r4" and b4: "0 \<le> r4" "r4 \<le> 364"
    unfolding n1_def r4_def by simp_all
  have nonneg: "0 \<le> n400" "0 \<le> n100" "0 \<le> n4" "0 \<le> n1"
    using assms(1) b1 b2 b3 unfolding n400_def n100_def n4_def n1_def
    by (simp_all add: pos_imp_zdiv_nonneg_iff)
  have eq: "ord2ymd k =
      (if n1 = 4 \<or> n100 = 4 then (n400 * 400 + 1 + n100 * 100 + n4 * 4 + n1 - 1, 12, 31)
       else (n400 * 400 + 1 + n100 * 100 + n4 * 4 + n1,
             month_day (n1 = 3 \<and> (n4 \<noteq> 24 \<or> n100 = 3)) r4))"
    unfolding ord2ymd_def Let_def n400_def r1_def n100_def r2_def n4_def r3_def n1_def r4_def
    by (rule refl)
  show ?thesis
    unfolding eq
    by (rule ord2ymd_core [OF nonneg b4(1) b4(2)])
      (use e1 e2 e3 e4 b1 b2 b3 assms(2) in \<open>simp_all add: MAXORDINAL_def\<close>)
qed


subsection \<open>Messages and their time markers\<close>

text \<open>
  A message object of the automation library, as the code reads it: each attribute is
  there or not (\<open>hasattr\<close>). A result entry is the dictionary the functions build;
  the field for \<open>msg_timestamp\<close>
  is \<open>None\<close> where the dictionary has no such key.
\<close>

record message =
  sender :: "ustr option"
  content :: "ustr option"
  mtype :: "ustr option"
  mtime :: "ustr option"

record out_message =
  out_sender :: ustr
  out_content :: ustr
  out_msg_time :: ustr
  out_msg_type :: ustr
  out_msg_timestamp :: "int option"

definition attr_or :: "ustr option \<Rightarrow> ustr \<Rightarrow> ustr" where
  "attr_or a dflt = (case a of Some v \<Rightarrow> v | None \<Rightarrow> dflt)"

text \<open>The strings \<open>'sys'\<close>, \<open>'SYS'\<close>, \<open>'unknown'\<close> and the text for "just now".\<close>

definition str_sys :: ustr where "str_sys = [115, 121, 115]"
definition str_SYS :: ustr where "str_SYS = [83, 89, 83]"
definition str_unknown :: ustr where "str_unknown = [117, 110, 107, 110, 111, 119, 110]"
definition str_just_now :: ustr where "str_just_now = [21018, 21018]"



text \<open>
  \<open>filter_messages_by_date_range\<close>. \<open>timestamp\<close> stands for
  \<open>int(dt.timestamp())\<close>, which depends on the local time zone and can raise for a
  time the platform cannot convert. The loop carries the result list and the current
  time context (the marker's text and its parsed time).
\<close>

fun filter_loop ::
  "(datetime \<Rightarrow> error + int) \<Rightarrow> datetime \<Rightarrow> datetime \<Rightarrow> datetime \<Rightarrow> message list
     \<Rightarrow> (ustr \<times> datetime) option \<Rightarrow> out_message list \<Rightarrow> error + out_message list" where
  "filter_loop timestamp now cutoff_time base_time [] current_time_context filtered_messages =
     Inr filtered_messages"
| "filter_loop timestamp now cutoff_time base_time (msg # msgs) current_time_context
       filtered_messages =
     (let sender = attr_or (sender msg) [];
          content = attr_or (content msg) [];
          msg_type = attr_or (mtype msg) str_unknown
      in
        if msg_type = str_sys \<and> sender = str_SYS then
          (case parse_wechat_time now content (Some base_time) of
             Inl err \<Rightarrow> Inl err
           | Inr (Some parsed_time) \<Rightarrow>
               filter_loop timestamp now cutoff_time base_time msgs
                 (Some (content, parsed_time)) filtered_messages
           | Inr None \<Rightarrow>
               filter_loop timestamp now cutoff_time base_time msgs
                 current_time_context filtered_messages)
        else
          (case current_time_context of
             Some (msg_time_text, msg_time) \<Rightarrow>
               (if dt_ge msg_time cutoff_time then
                  (case timestamp msg_time of
                     Inl err \<Rightarrow> Inl err
                   | Inr stamp \<Rightarrow>
                       filter_loop timestamp now cutoff_time base_time msgs
                         current_time_context
                         (filtered_messages @
                            [\<lparr>out_sender = sender, out_content = content,
                              out_msg_time = msg_time_text, out_msg_type = msg_type,
                              out_msg_timestamp = Some stamp\<rparr>]))
                else
                  filter_loop timestamp now cutoff_time base_time msgs
                    current_time_context filtered_messages)
           | None \<Rightarrow>
               (case timestamp base_time of
                  Inl err \<Rightarrow> Inl err
                | Inr stamp \<Rightarrow>
                    filter_loop timestamp now cutoff_time base_time msgs
                      current_time_context
                      (filtered_messages @
                         [\<lparr>out_sender = sender, out_content = content,
                           out_msg_time = str_just_now, out_msg_type = msg_type,
                           out_msg_timestamp = Some stamp\<rparr>]))))"

definition filter_messages_by_date_range ::
  "(datetime \<Rightarrow> error + int) \<Rightarrow> datetime \<Rightarrow> message list \<Rightarrow> datetime \<Rightarrow> datetime option
     \<Rightarrow> error + out_message list" where
  "filter_messages_by_date_range timestamp now messages cutoff_time base_time0 =
     filter_loop timestamp now cutoff_time
       (case base_time0 of None \<Rightarrow> now | Some b \<Rightarrow> b) messages None []"



subsection \<open>What the filter keeps\<close>

text \<open>
  In the words of the description: a time marker is a message of type \<open>'sys'\<close> from
  sender \<open>'SYS'\<close>. The governing time context of a message is that of the most recent
  marker before it whose text parses (the marker's text and the parsed time), and
  \<open>'just now'\<close> with the base time when there is none. A message that is no marker is
  kept exactly when the time of its context is at or after the cutoff, as an entry
  with that context's text and timestamp. \<open>kept_spec\<close> collects the entries position
  by position.
\<close>

definition is_time_marker :: "message \<Rightarrow> bool" where
  "is_time_marker m =
     (attr_or (mtype m) str_unknown = str_sys \<and> attr_or (sender m) [] = str_SYS)"

definition marker_context :: "datetime \<Rightarrow> datetime \<Rightarrow> message \<Rightarrow> (ustr \<times> datetime) option" where
  "marker_context now base_time m =
     (if is_time_marker m then
        (case parse_wechat_time now (attr_or (content m) []) (Some base_time) of
           Inr (Some t) \<Rightarrow> Some (attr_or (content m) [], t)
         | _ \<Rightarrow> None)
      else None)"

definition governing :: "datetime \<Rightarrow> datetime \<Rightarrow> message list \<Rightarrow> ustr \<times> datetime" where
  "governing now base_time before =
     (case rev (List.map_filter (marker_context now base_time) before) of
        [] \<Rightarrow> (str_just_now, base_time)
      | c # _ \<Rightarrow> c)"

definition entry :: "(datetime \<Rightarrow> error + int) \<Rightarrow> message \<Rightarrow> ustr \<times> datetime \<Rightarrow> out_message" where
  "entry timestamp m c =
     \<lparr>out_sender = attr_or (sender m) [], out_content = attr_or (content m) [],
      out_msg_time = fst c, out_msg_type = attr_or (mtype m) str_unknown,
      out_msg_timestamp = (case timestamp (snd c) of Inr v \<Rightarrow> Some v | Inl _ \<Rightarrow> None)\<rparr>"

definition kept_one ::
  "(datetime \<Rightarrow> error + int) \<Rightarrow> datetime \<Rightarrow> datetime \<Rightarrow> datetime \<Rightarrow> message list
     \<Rightarrow> message \<Rightarrow> out_message list" where
  "kept_one timestamp now cutoff_time base_time before m =
     (if \<not> is_time_marker m \<and> dt_ge (snd (governing now base_time before)) cutoff_time
      then [entry timestamp m (governing now base_time before)] else [])"

text \<open>
  The same, walking along the list with the messages already passed: the form the loop
  is compared with.
\<close>

fun kept_after ::
  "(datetime \<Rightarrow> error + int) \<Rightarrow> datetime \<Rightarrow> datetime \<Rightarrow> datetime \<Rightarrow> message list
     \<Rightarrow> message list \<Rightarrow> out_message list" where
  "kept_after timestamp now cutoff_time base_time before [] = []"
| "kept_after timestamp now cutoff_time base_time before (m # ms) =
     kept_one timestamp now cutoff_time base_time before m
     @ kept_after timestamp now cutoff_time base_time (before @ [m]) ms"

definition context_of :: "datetime \<Rightarrow> datetime \<Rightarrow> message list \<Rightarrow> (ustr \<times> datetime) option" where
  "context_of now base_time before =
     (case rev (List.map_filter (marker_context now base_time) before) of
        [] \<Rightarrow> None
      | c # _ \<Rightarrow> Some c)"

lemma governing_context_of:
  "governing now b pre = (case context_of now b pre of None \<Rightarrow> (str_just_now, b) | Some c \<Rightarrow> c)"
  by (simp add: governing_def context_of_def split: list.splits)

lemma context_of_snoc:
  "context_of now b (pre @ [m]) =
     (case marker_context now b m of Some c \<Rightarrow> Some c | None \<Rightarrow> context_of now b pre)"
  by (simp add: context_of_def List.map_filter_def split: option.splits)

lemma filter_loop_kept:
  assumes "dt_ge b cutoff"
  shows "filter_loop ts now cutoff b ms (context_of now b pre) acc = Inr res \<Longrightarrow>
         res = acc @ kept_after ts now cutoff b pre ms"
proof (induction ms arbitrary: pre acc)
  case Nil
  then show ?case by simp
next
  case (Cons m ms)
  show ?case
  proof (cases "is_time_marker m")
    case True
    then have mk: "attr_or (mtype m) str_unknown = str_sys" "attr_or (sender m) [] = str_SYS"
      by (simp_all add: is_time_marker_def)
    show ?thesis
    proof (cases "parse_wechat_time now (attr_or (content m) []) (Some b)")
      case (Inl err)
      with Cons.prems mk show ?thesis by (simp add: Let_def)
    next
      case (Inr parsed)
      show ?thesis
      proof (cases parsed)
        case None
        with Inr True have ctx: "context_of now b (pre @ [m]) = context_of now b pre"
          by (simp add: context_of_snoc marker_context_def)
        from Cons.prems mk Inr None
        have "filter_loop ts now cutoff b ms (context_of now b (pre @ [m])) acc = Inr res"
          by (simp add: Let_def ctx)
        then have "res = acc @ kept_after ts now cutoff b (pre @ [m]) ms"
          by (rule Cons.IH)
        with True show ?thesis by (simp add: kept_one_def)
      next
        case (Some t)
        with Inr True
        have ctx: "context_of now b (pre @ [m]) = Some (attr_or (content m) [], t)"
          by (simp add: context_of_snoc marker_context_def)
        from Cons.prems mk Inr Some
        have "filter_loop ts now cutoff b ms (context_of now b (pre @ [m])) acc = Inr res"
          by (simp add: Let_def ctx)
        then have "res = acc @ kept_after ts now cutoff b (pre @ [m]) ms"
          by (rule Cons.IH)
        with True show ?thesis by (simp add: kept_one_def)
      qed
    qed
  next
    case False
    then have nm: "\<not> (attr_or (mtype m) str_unknown = str_sys \<and> attr_or (sender m) [] = str_SYS)"
      by (simp add: is_time_marker_def)
    from False have ctx: "context_of now b (pre @ [m]) = context_of now b pre"
      by (simp add: context_of_snoc marker_context_def)
    show ?thesis
    proof (cases "context_of now b pre")
      case None
      then have g: "governing now b pre = (str_just_now, b)"
        by (simp add: governing_context_of)
      show ?thesis
      proof (cases "ts b")
        case (Inl err)
        with Cons.prems nm None show ?thesis by (simp add: Let_def)
      next
        case (Inr stamp)
        from Cons.prems nm None Inr
        have "filter_loop ts now cutoff b ms (context_of now b (pre @ [m]))
            (acc @ [entry ts m (str_just_now, b)]) = Inr res"
          by (simp add: Let_def ctx entry_def)
        then have "res = (acc @ [entry ts m (str_just_now, b)])
            @ kept_after ts now cutoff b (pre @ [m]) ms"
          by (rule Cons.IH)
        with False g assms show ?thesis by (simp add: kept_one_def)
      qed
    next
      case (Some c)
      obtain mtext t where c: "c = (mtext, t)" by (cases c)
      from Some c have g: "governing now b pre = (mtext, t)"
        by (simp add: governing_context_of)
      show ?thesis
      proof (cases "dt_ge t cutoff")
        case True
        show ?thesis
        proof (cases "ts t")
          case (Inl err)
          with Cons.prems nm Some c True show ?thesis by (simp add: Let_def)
        next
          case (Inr stamp)
          from Cons.prems nm Some c True Inr
          have "filter_loop ts now cutoff b ms (context_of now b (pre @ [m]))
              (acc @ [entry ts m (mtext, t)]) = Inr res"
            by (simp add: Let_def ctx entry_def)
          then have "res = (acc @ [entry ts m (mtext, t)])
              @ kept_after ts now cutoff b (pre @ [m]) ms"
            by (rule Cons.IH)
          with False g True show ?thesis by (simp add: kept_one_def)
        qed
      next
        case nk: False
        from Cons.prems nm Some c nk
        have "filter_loop ts now cutoff b ms (context_of now b (pre @ [m])) acc = Inr res"
          by (simp add: Let_def ctx)
        then have "res = acc @ kept_after ts now cutoff b (pre @ [m]) ms"
          by (rule Cons.IH)
        with False g nk show ?thesis by (simp add: kept_one_def)
      qed
    qed
  qed
qed


definition kept_spec ::
  "(datetime \<Rightarrow> error + int) \<Rightarrow> datetime \<Rightarrow> datetime \<Rightarrow> datetime \<Rightarrow> message list
     \<Rightarrow> out_message list" where
  "kept_spec timestamp now cutoff_time base_time msgs =
     concat (map (\<lambda>i. kept_one timestamp now cutoff_time base_time (take i msgs) (msgs ! i))
       [0..<length msgs])"

lemma kept_after_positions:
  "kept_after ts now cutoff b pre ms =
     concat (map (\<lambda>i. kept_one ts now cutoff b (pre @ take i ms) (ms ! i)) [0..<length ms])"
proof (induction ms arbitrary: pre)
  case Nil
  then show ?case by simp
next
  case (Cons m ms)
  have upt: "[0..<length (m # ms)] = 0 # map Suc [0..<length ms]"
    by (simp add: upt_conv_Cons map_Suc_upt del: upt_Suc)
  show ?case
    unfolding upt by (simp add: Cons.IH comp_def)
qed

lemma kept_after_no_marker:
  "r \<in> set (kept_after ts now cutoff b pre ms) \<Longrightarrow>
   \<not> (out_msg_type r = str_sys \<and> out_sender r = str_SYS)"
  by (induction ms arbitrary: pre)
    (auto simp: kept_one_def entry_def is_time_marker_def split: if_splits)

lemma filter_loop_stamped:
  "filter_loop ts now cutoff b ms ctx acc = Inr res \<Longrightarrow>
   \<forall>r \<in> set acc. out_msg_timestamp r \<noteq> None \<Longrightarrow>
   \<forall>r \<in> set res. out_msg_timestamp r \<noteq> None"
proof (induction ms arbitrary: ctx acc)
  case Nil
  then show ?case by simp
next
  case (Cons m ms)
  from Cons.prems(1) obtain ctx' acc'
    where next_call: "filter_loop ts now cutoff b ms ctx' acc' = Inr res"
      and acc': "acc' = acc \<or> (\<exists>r. acc' = acc @ [r] \<and> out_msg_timestamp r \<noteq> None)"
    by (auto simp: Let_def split: if_splits sum.splits option.splits prod.splits)
  from acc' Cons.prems(2) have "\<forall>r \<in> set acc'. out_msg_timestamp r \<noteq> None"
    by auto
  with next_call show ?case by (rule Cons.IH)
qed

lemma filter_loop_returns:
  assumes "\<forall>t. \<not> isl (ts t)"
  shows "\<forall>m \<in> set ms. is_time_marker m \<longrightarrow>
           \<not> isl (parse_wechat_time now (attr_or (content m) []) (Some b)) \<Longrightarrow>
         \<exists>res. filter_loop ts now cutoff b ms ctx acc = Inr res"
proof (induction ms arbitrary: ctx acc)
  case Nil
  then show ?case by simp
next
  case (Cons m ms)
  then have IH: "\<And>ctx acc. \<exists>res. filter_loop ts now cutoff b ms ctx acc = Inr res"
    by simp
  show ?case
  proof (cases "is_time_marker m")
    case True
    with Cons.prems obtain p where "parse_wechat_time now (attr_or (content m) []) (Some b) = Inr p"
      by (cases "parse_wechat_time now (attr_or (content m) []) (Some b)") auto
    with True IH show ?thesis
      by (cases p) (simp_all add: is_time_marker_def Let_def)
  next
    case False
    have stamp: "\<exists>v. ts t = Inr v" for t
      using assms [rule_format, of t] by (cases "ts t") auto
    from False have nm: "\<not> (attr_or (mtype m) str_unknown = str_sys \<and> attr_or (sender m) [] = str_SYS)"
      by (simp add: is_time_marker_def)
    show ?thesis
    proof (cases ctx)
      case None
      obtain v where "ts b = Inr v" using stamp by blast
      with nm None IH show ?thesis by (auto simp: Let_def)
    next
      case (Some c)
      obtain mtext t where c: "c = (mtext, t)" by (cases c)
      obtain v where "ts t = Inr v" using stamp by blast
      with nm Some c IH show ?thesis by (auto simp: Let_def)
    qed
  qed
qed

text \<open>
  C9. Postcondition of \<open>filter_messages_by_date_range\<close>: for every message list and
  every cutoff not after the base time, when the function returns, its result is
  \<open>kept_spec\<close>: no time marker is in it; every other message is in it, in order, if
  and only if the time of its governing context is at or after the cutoff (a message
  before any marker that parses is governed by \<open>'just now'\<close> and the base time, and so
  is kept); and each entry carries the text and the timestamp of its governing
  context. The function does return whenever no marker's text makes
  \<open>parse_wechat_time\<close> raise and the timestamp conversion does not raise.
\<close>

theorem filter_messages_postcondition:
  "(dt_ge (case base_opt of None \<Rightarrow> now | Some b \<Rightarrow> b) cutoff_time
      \<and> filter_messages_by_date_range timestamp now msgs cutoff_time base_opt = Inr res \<longrightarrow>
        res = kept_spec timestamp now cutoff_time
                (case base_opt of None \<Rightarrow> now | Some b \<Rightarrow> b) msgs
        \<and> (\<forall>r \<in> set res. \<not> (out_msg_type r = str_sys \<and> out_sender r = str_SYS))
        \<and> (\<forall>r \<in> set res. out_msg_timestamp r \<noteq> None))
   \<and> ((\<forall>t. \<not> isl (timestamp t))
        \<and> (\<forall>m \<in> set msgs. is_time_marker m \<longrightarrow>
              \<not> isl (parse_wechat_time now (attr_or (content m) [])
                       (Some (case base_opt of None \<Rightarrow> now | Some b \<Rightarrow> b)))) \<longrightarrow>
        (\<exists>res. filter_messages_by_date_range timestamp now msgs cutoff_time base_opt
                  = Inr res))"
proof -
  define b where "b = (case base_opt of None \<Rightarrow> now | Some b \<Rightarrow> b)"
  have ctx: "context_of now b [] = None"
    by (simp add: context_of_def List.map_filter_def)
  have post: "res = kept_spec timestamp now cutoff_time b msgs
      \<and> (\<forall>r \<in> set res. \<not> (out_msg_type r = str_sys \<and> out_sender r = str_SYS))
      \<and> (\<forall>r \<in> set res. out_msg_timestamp r \<noteq> None)"
    if ge: "dt_ge b cutoff_time"
      and ret: "filter_messages_by_date_range timestamp now msgs cutoff_time base_opt = Inr res"
  proof -
    from ret have loop: "filter_loop timestamp now cutoff_time b msgs (context_of now b []) [] = Inr res"
      unfolding ctx by (simp add: filter_messages_by_date_range_def b_def)
    then have res: "res = kept_after timestamp now cutoff_time b [] msgs"
      using filter_loop_kept [OF ge loop] by simp
    then have "res = kept_spec timestamp now cutoff_time b msgs"
      by (simp add: kept_after_positions kept_spec_def)
    moreover have "\<forall>r \<in> set res. \<not> (out_msg_type r = str_sys \<and> out_sender r = str_SYS)"
      using res kept_after_no_marker by blast
    moreover have "\<forall>r \<in> set res. out_msg_timestamp r \<noteq> None"
      using filter_loop_stamped [OF loop] by simp
    ultimately show ?thesis by simp
  qed
  have returns: "\<exists>res. filter_messages_by_date_range timestamp now msgs cutoff_time base_opt
      = Inr res"
    if "\<forall>t. \<not> isl (timestamp t)"
      and "\<forall>m \<in> set msgs. is_time_marker m \<longrightarrow>
             \<not> isl (parse_wechat_time now (attr_or (content m) []) (Some b))"
    unfolding filter_messages_by_date_range_def b_def [symmetric]
    using filter_loop_returns [OF that] .
  show ?thesis
    unfolding b_def [symmetric] using post returns by blast
qed


text \<open>
  An example: a base time on 2024-05-17, the cutoff at that day's midnight, a clock
  that counts seconds from 1970-01-01, and seven messages, three of them markers
  (yesterday 14:23, a text that is no time, and 12:00).
\<close>

definition base_demo :: datetime where
  "base_demo =
     \<lparr>year = 2024, month = 5, day = 17, hour = 10, minute = 30, second = 15,
      microsecond = 123\<rparr>"

definition cutoff_demo :: datetime where
  "cutoff_demo =
     \<lparr>year = 2024, month = 5, day = 17, hour = 0, minute = 0, second = 0, microsecond = 0\<rparr>"

definition timestamp_demo :: "datetime \<Rightarrow> error + int" where
  "timestamp_demo dt =
     Inr ((toordinal dt - 719163) * 86400 + hour dt * 3600 + minute dt * 60 + second dt)"

definition plain_msg :: "ustr \<Rightarrow> message" where
  "plain_msg c = \<lparr>sender = Some [97], content = Some c, mtype = Some [102], mtime = None\<rparr>"

definition marker_msg :: "ustr \<Rightarrow> message" where
  "marker_msg c = \<lparr>sender = Some str_SYS, content = Some c, mtype = Some str_sys, mtime = None\<rparr>"

definition msgs_demo :: "message list" where
  "msgs_demo =
     [plain_msg [49], marker_msg [26152, 22825, 32, 49, 52, 58, 50, 51], plain_msg [50],
      marker_msg [104, 105], plain_msg [51], marker_msg [49, 50, 58, 48, 48], plain_msg [52]]"

definition kept_demo :: "out_message list" where
  "kept_demo =
     [\<lparr>out_sender = [97], out_content = [49], out_msg_time = [21018, 21018],
       out_msg_type = [102], out_msg_timestamp = Some 1715941815\<rparr>,
      \<lparr>out_sender = [97], out_content = [52], out_msg_time = [49, 50, 58, 48, 48],
       out_msg_type = [102], out_msg_timestamp = Some 1715947200\<rparr>]"

lemma filter_demo:
  "filter_messages_by_date_range timestamp_demo base_demo msgs_demo cutoff_demo (Some base_demo)
     = Inr kept_demo"
  by code_simp

lemma dt_ge_demo: "dt_ge base_demo cutoff_demo"
  by code_simp

theorem filter_messages_postcondition_witness:
  "dt_ge base_demo cutoff_demo
   \<and> filter_messages_by_date_range timestamp_demo base_demo msgs_demo cutoff_demo
       (Some base_demo) = Inr kept_demo
   \<and> kept_spec timestamp_demo base_demo cutoff_demo base_demo msgs_demo = kept_demo
   \<and> list_all (\<lambda>r. \<not> (out_msg_type r = str_sys \<and> out_sender r = str_SYS)) kept_demo
   \<and> list_all (\<lambda>r. out_msg_timestamp r \<noteq> None) kept_demo"
  using filter_messages_postcondition [where ?base_opt = "Some base_demo" and ?now = base_demo
      and ?cutoff_time = cutoff_demo and ?timestamp = timestamp_demo and ?msgs = msgs_demo
      and ?res = kept_demo]
    filter_demo dt_ge_demo
  by (simp add: list_all_iff)

subsection \<open>The cutoff time\<close>

text \<open>
  A \<open>datetime\<close> object has its fields in range (the constructor sees to it);
  \<open>midnight\<close> is 00:00:00.000000 of a day. In the words of the description, a range
  "the last N days" is the character for "near", a non-empty string of decimal digits
  and the character for "day"; \<open>recent_days_arg\<close> gives the digits.
\<close>

definition valid_datetime :: "datetime \<Rightarrow> bool" where
  "valid_datetime dt =
     (valid_date (year dt) (month dt) (day dt)
      \<and> 0 \<le> hour dt \<and> hour dt \<le> 23 \<and> 0 \<le> minute dt \<and> minute dt \<le> 59
      \<and> 0 \<le> second dt \<and> second dt \<le> 59
      \<and> 0 \<le> microsecond dt \<and> microsecond dt \<le> 999999)"

definition midnight :: "int \<times> int \<times> int \<Rightarrow> datetime" where
  "midnight ymd =
     \<lparr>year = fst ymd, month = fst (snd ymd), day = snd (snd ymd), hour = 0, minute = 0,
      second = 0, microsecond = 0\<rparr>"

definition str_today :: ustr where "str_today = [20170, 22825]"

definition recent_days_arg :: "ustr \<Rightarrow> ustr option" where
  "recent_days_arg s =
     (case s of
        [] \<Rightarrow> None
      | c # r \<Rightarrow>
          if c = 36817 \<and> r \<noteq> [] \<and> last r = 22825 \<and> butlast r \<noteq> []
             \<and> list_all is_digit (butlast r)
          then Some (butlast r) else None)"

lemma datetime_new_valid_date:
  "valid_date y m d \<Longrightarrow> datetime_new y m d 0 0 0 0 = Inr (midnight (y, m, d))"
  by (simp add: datetime_new_def valid_date_def midnight_def)

lemma replace_time_midnight:
  "valid_datetime dt \<Longrightarrow> replace_time dt 0 0 = Inr (midnight (year dt, month dt, day dt))"
  by (simp add: replace_time_def valid_datetime_def datetime_new_valid_date)

lemma month_tables:
  "list_all (\<lambda>m. 0 \<le> DAYS_BEFORE_MONTH ! nat (m - 1) \<and> DAYS_BEFORE_MONTH ! nat (m - 1) \<le> 334
       \<and> DAYS_IN_MONTH ! nat (m - 1) \<le> 31) [1..12]"
  by code_simp

lemma toordinal_bounds:
  assumes "valid_date y m d"
  shows "1 \<le> ymd2ord y m d \<and> ymd2ord y m d \<le> 3652425"
proof -
  from assms have y: "1 \<le> y" "y \<le> 9999" and m: "1 \<le> m" "m \<le> 12"
    and d: "1 \<le> d" "d \<le> days_in_month y m"
    by (simp_all add: valid_date_def MINYEAR_def MAXYEAR_def)
  from m have "m \<in> set [1..12]" by simp
  then have tab: "0 \<le> DAYS_BEFORE_MONTH ! nat (m - 1)" "DAYS_BEFORE_MONTH ! nat (m - 1) \<le> 334"
    "DAYS_IN_MONTH ! nat (m - 1) \<le> 31"
    using month_tables unfolding list_all_iff by blast+
  have dim: "days_in_month y m \<le> 31"
    using tab(3) by (simp add: days_in_month_def)
  have dbm: "0 \<le> days_before_month y m" "days_before_month y m \<le> 335"
    using tab(1,2) by (simp_all add: days_before_month_def)
  define y1 where "y1 = y - 1"
  have y1: "0 \<le> y1" "y1 \<le> 9998" using y by (simp_all add: y1_def)
  have a: "y1 div 100 \<le> y1 div 4"
    using y1(1) by (intro zdiv_mono2) simp_all
  have b: "0 \<le> y1 div 400" "0 \<le> y1 div 100"
    using y1(1) by (simp_all add: pos_imp_zdiv_nonneg_iff)
  have c: "y1 div 4 \<le> 2499" "y1 div 400 \<le> 24"
    using y1(2) zdiv_mono1 [of y1 9998 4] zdiv_mono1 [of y1 9998 400] by simp_all
  have dby: "days_before_year y = y1 * 365 + y1 div 4 - y1 div 100 + y1 div 400"
    by (simp add: days_before_year_def y1_def Let_def)
  show ?thesis
    unfolding ymd2ord_def dby using y1 a b c dbm d dim by linarith
qed

lemma timedelta_days_eq:
  "timedelta_days n =
     (if abs n > 999999999 then Inl OverflowError
      else Inr \<lparr>td_days = n, td_seconds = 0, td_microseconds = 0\<rparr>)"
  by (simp add: timedelta_days_def timedelta_of_seconds_def)

lemma minus_days:
  assumes "valid_datetime dt"
  shows "if 1 \<le> toordinal dt - n \<and> toordinal dt - n \<le> MAXORDINAL
         then \<exists>r. minus_delta dt (timedelta_days n) = Inr r
                \<and> (year r, month r, day r) = ord2ymd (toordinal dt - n)
         else minus_delta dt (timedelta_days n) = Inl OverflowError"
proof -
  from assms have vd: "valid_date (year dt) (month dt) (day dt)"
    and t: "0 \<le> hour dt" "hour dt \<le> 23" "0 \<le> minute dt" "minute dt \<le> 59"
      "0 \<le> second dt" "second dt \<le> 59" "0 \<le> microsecond dt" "microsecond dt \<le> 999999"
    by (simp_all add: valid_datetime_def)
  have ord: "1 \<le> toordinal dt" "toordinal dt \<le> 3652425"
    using toordinal_bounds [OF vd] by (simp_all add: toordinal_def)
  have us: "microsecond dt div 1000000 = 0"
    using t(7,8) by simp
  define s where "s = hour dt * 3600 + minute dt * 60 + second dt"
  have s: "0 \<le> s" "s < 86400" using t by (simp_all add: s_def)
  then have sdiv: "s div 86400 = 0" by simp
  show ?thesis
  proof (cases "abs n > 999999999")
    case True
    then have "\<not> (1 \<le> toordinal dt - n \<and> toordinal dt - n \<le> MAXORDINAL)"
      using ord by (auto simp: MAXORDINAL_def)
    with True show ?thesis
      by (simp add: timedelta_days_eq minus_delta_def)
  next
    case False
    then have eq: "minus_delta dt (timedelta_days n)
        = datetime_sub dt \<lparr>td_days = n, td_seconds = 0, td_microseconds = 0\<rparr>"
      by (simp add: timedelta_days_eq minus_delta_def)
    show ?thesis
      unfolding eq
      using us sdiv
      by (auto simp: datetime_sub_def Let_def s_def [symmetric] case_prod_beta)
  qed
qed

lemma not_digit_day_sign: "\<not> is_digit 22825"
  by (simp add: is_digit_def digit_value_def decimal_zeros_def)

lemma endswith_single: "s \<noteq> [] \<Longrightarrow> endswith s [x] = (last s = x)"
  by (cases s rule: rev_cases) (simp_all add: endswith_def)

lemma recent_days_match:
  assumes "n \<noteq> []" "list_all is_digit n"
  shows "match_recent_days (36817 # n @ [22825]) = Some n"
proof -
  have tw: "takeWhile is_digit (n @ [22825]) = n"
    using assms(2) not_digit_day_sign by (simp add: takeWhile_append2 list_all_iff)
  have dw: "dropWhile is_digit (n @ [22825]) = [22825]"
    using assms(2) not_digit_day_sign by (simp add: dropWhile_append2 list_all_iff)
  show ?thesis
    using assms(1) by (simp add: match_recent_days_def literal_def digits1_def tw dw at_end_def)
qed

lemma recent_days_match_only:
  assumes "match_recent_days s = Some n" "endswith s [22825]"
  shows "s = 36817 # n @ [22825] \<and> n \<noteq> [] \<and> list_all is_digit n"
proof -
  from assms(1) obtain r where s: "s = 36817 # r"
    by (cases s) (auto simp: match_recent_days_def literal_def split: option.splits if_splits)
  define r1 where "r1 = dropWhile is_digit r"
  from assms(1) s have n: "n = takeWhile is_digit r" "n \<noteq> []"
    by (auto simp: match_recent_days_def literal_def digits1_def Let_def
        split: option.splits if_splits)
  from assms(1) s have "take (Suc 0) r1 = [22825]" "at_end (drop (Suc 0) r1)"
    unfolding r1_def
    by (auto simp: match_recent_days_def literal_def digits1_def Let_def
        split: option.splits if_splits)
  then obtain r2 where r1: "r1 = 22825 # r2" and e: "at_end r2"
    by (cases r1) auto
  have "r = takeWhile is_digit r @ dropWhile is_digit r"
    by simp
  then have r: "r = n @ 22825 # r2"
    unfolding n(1) r1 [unfolded r1_def] .
  have "r2 = []"
  proof (rule ccontr)
    assume "r2 \<noteq> []"
    with e have "r2 = [10]" by (simp add: at_end_def)
    with s r have "last s = 10" by simp
    moreover from assms(2) s have "last s = 22825"
      using endswith_single [of s 22825] by simp
    ultimately show False by simp
  qed
  moreover have "list_all is_digit n"
    unfolding n(1) by (simp add: list_all_iff) (meson set_takeWhileD)
  ultimately show ?thesis using s r n(2) by simp
qed

lemma days_branch:
  "(startswith s [36817] \<and> endswith s [22825] \<and> match_recent_days s = Some n)
     = (recent_days_arg s = Some n)"
proof
  assume a: "startswith s [36817] \<and> endswith s [22825] \<and> match_recent_days s = Some n"
  then have "s = 36817 # n @ [22825] \<and> n \<noteq> [] \<and> list_all is_digit n"
    using recent_days_match_only by blast
  then show "recent_days_arg s = Some n"
    by (simp add: recent_days_arg_def)
next
  assume a: "recent_days_arg s = Some n"
  then obtain r where s: "s = 36817 # r" and r: "r \<noteq> []" "last r = 22825"
    and n: "n = butlast r" "n \<noteq> []" "list_all is_digit n"
    by (cases s) (auto simp: recent_days_arg_def split: if_splits)
  have "r = n @ [22825]"
    using r n(1) append_butlast_last_id [of r] by simp
  with s have s': "s = 36817 # n @ [22825]" by simp
  have "match_recent_days s = Some n"
    unfolding s' using n(2,3) by (rule recent_days_match)
  moreover have "startswith s [36817]" by (simp add: s' startswith_def)
  moreover have "endswith s [22825]" using endswith_single [of s 22825] s' by simp
  ultimately show "startswith s [36817] \<and> endswith s [22825] \<and> match_recent_days s = Some n"
    by simp
qed

lemma not_days_branch:
  "recent_days_arg s = None \<Longrightarrow>
   \<not> (startswith s [36817] \<and> endswith s [22825] \<and> match_recent_days s \<noteq> None)"
  using days_branch [of s] by (cases "match_recent_days s") auto


text \<open>
  The claim that \<open>calculate_cutoff_time\<close> returns for every range of the form "the
  last N days" fails where the day asked for lies before the first day of the calendar:
  for N = 4000000 and a base time in 2024, \<open>base_time - timedelta(days=3999999)\<close>
  raises \<open>OverflowError\<close>.
\<close>

theorem calculate_cutoff_time_overflow_counterexample:
  "recent_days_arg [36817, 52, 48, 48, 48, 48, 48, 48, 22825] = Some [52, 48, 48, 48, 48, 48, 48]
   \<and> int_of_digits [52, 48, 48, 48, 48, 48, 48] = 4000000
   \<and> calculate_cutoff_time base_demo [36817, 52, 48, 48, 48, 48, 48, 48, 22825] (Some base_demo)
       = Inl OverflowError"
  by code_simp

text \<open>
  C8 (amended). For a base time that is a \<open>datetime\<close>: \<open>calculate_cutoff_time\<close>
  returns the midnight of the base day when the range is "today"; when the range is
  "the last N days" for decimal digits N that \<open>int()\<close> accepts (at most 4300 of
  them), and the day N - 1 days before the base day is a day of the calendar (years 1
  to 9999), it returns the midnight of that day, and raises \<open>OverflowError\<close> when it
  is not (\<open>ValueError\<close> when \<open>int()\<close> refuses the digits); for every other range it
  raises \<open>ValueError\<close>, so it never returns for an unsupported range.
\<close>

theorem calculate_cutoff_time_cases:
  "valid_datetime (case base_opt of None \<Rightarrow> now | Some b \<Rightarrow> b) \<longrightarrow>
     (date_range = str_today \<longrightarrow>
        calculate_cutoff_time now date_range base_opt
          = Inr (midnight (year (case base_opt of None \<Rightarrow> now | Some b \<Rightarrow> b),
                           month (case base_opt of None \<Rightarrow> now | Some b \<Rightarrow> b),
                           day (case base_opt of None \<Rightarrow> now | Some b \<Rightarrow> b))))
     \<and> (recent_days_arg date_range = Some n \<longrightarrow>
          (if length n \<le> int_max_str_digits
              \<and> 1 \<le> toordinal (case base_opt of None \<Rightarrow> now | Some b \<Rightarrow> b)
                    - (int_of_digits n - 1)
              \<and> toordinal (case base_opt of None \<Rightarrow> now | Some b \<Rightarrow> b)
                    - (int_of_digits n - 1) \<le> MAXORDINAL
           then (\<exists>r. calculate_cutoff_time now date_range base_opt = Inr r
                   \<and> valid_datetime r
                   \<and> toordinal r = toordinal (case base_opt of None \<Rightarrow> now | Some b \<Rightarrow> b)
                                     - (int_of_digits n - 1)
                   \<and> hour r = 0 \<and> minute r = 0 \<and> second r = 0 \<and> microsecond r = 0)
           else calculate_cutoff_time now date_range base_opt
                  = Inl (if length n \<le> int_max_str_digits then OverflowError
                         else ValueError)))
     \<and> (date_range \<noteq> str_today \<and> recent_days_arg date_range = None \<longrightarrow>
          calculate_cutoff_time now date_range base_opt = Inl ValueError)"
proof -
  define b where "b = (case base_opt of None \<Rightarrow> now | Some b \<Rightarrow> b)"
  have today: "calculate_cutoff_time now date_range base_opt
      = Inr (midnight (year b, month b, day b))"
    if "valid_datetime b" "date_range = str_today"
    using that replace_time_midnight [of b]
    by (simp add: calculate_cutoff_time_def b_def str_today_def)
  have other: "calculate_cutoff_time now date_range base_opt = Inl ValueError"
    if "date_range \<noteq> str_today" "recent_days_arg date_range = None"
    using that not_days_branch [of date_range]
    by (cases "match_recent_days date_range")
      (auto simp: calculate_cutoff_time_def str_today_def)
  have days: "if length n \<le> int_max_str_digits
        \<and> 1 \<le> toordinal b - (int_of_digits n - 1)
        \<and> toordinal b - (int_of_digits n - 1) \<le> MAXORDINAL
      then (\<exists>r. calculate_cutoff_time now date_range base_opt = Inr r \<and> valid_datetime r
              \<and> toordinal r = toordinal b - (int_of_digits n - 1)
              \<and> hour r = 0 \<and> minute r = 0 \<and> second r = 0 \<and> microsecond r = 0)
      else calculate_cutoff_time now date_range base_opt
             = Inl (if length n \<le> int_max_str_digits then OverflowError else ValueError)"
    if v: "valid_datetime b" and arg: "recent_days_arg date_range = Some n"
  proof -
    define k where "k = toordinal b - (int_of_digits n - 1)"
    from arg have br: "startswith date_range [36817]" "endswith date_range [22825]"
      "match_recent_days date_range = Some n"
      using days_branch [of date_range n] by simp_all
    from arg have nt: "date_range \<noteq> [20170, 22825]"
      by (auto simp: recent_days_arg_def split: list.splits if_splits)
    have long: "calculate_cutoff_time now date_range base_opt = Inl ValueError"
      if "\<not> length n \<le> int_max_str_digits"
      using br nt that by (simp add: calculate_cutoff_time_def b_def Let_def py_int_def)
    have calc: "calculate_cutoff_time now date_range base_opt =
        (case minus_delta b (timedelta_days (int_of_digits n - 1)) of
           Inl err \<Rightarrow> Inl err
         | Inr target_date \<Rightarrow> replace_time target_date 0 0)"
      if "length n \<le> int_max_str_digits"
      using br nt that by (simp add: calculate_cutoff_time_def b_def Let_def py_int_def)
    show ?thesis
    proof (cases "length n \<le> int_max_str_digits \<and> 1 \<le> k \<and> k \<le> MAXORDINAL")
      case True
      then obtain r where r: "minus_delta b (timedelta_days (int_of_digits n - 1)) = Inr r"
        and ymd: "(year r, month r, day r) = ord2ymd k"
        using minus_days [OF v, of "int_of_digits n - 1"] by (auto simp: k_def)
      from True have ok: "valid_date (year r) (month r) (day r)"
        "ymd2ord (year r) (month r) (day r) = k"
        using ord2ymd_correct [of k] ymd [symmetric] by simp_all
      have "calculate_cutoff_time now date_range base_opt
          = Inr (midnight (year r, month r, day r))"
        using calc True r ok(1)
        by (simp add: replace_time_def datetime_new_valid_date)
      moreover have "valid_datetime (midnight (year r, month r, day r))"
        using ok(1) by (simp add: valid_datetime_def midnight_def)
      moreover have "toordinal (midnight (year r, month r, day r)) = k"
        using ok(2) by (simp add: toordinal_def midnight_def)
      ultimately show ?thesis
        using True unfolding k_def [symmetric] by (simp add: midnight_def)
    next
      case False
      show ?thesis
      proof (cases "length n \<le> int_max_str_digits")
        case short: True
        with False
        have "minus_delta b (timedelta_days (int_of_digits n - 1)) = Inl OverflowError"
          using minus_days [OF v, of "int_of_digits n - 1"] by (simp add: k_def)
        with False short show ?thesis
          unfolding k_def [symmetric] using calc by simp
      next
        case False
        then show ?thesis using long by simp
      qed
    qed
  qed
  show ?thesis
    unfolding b_def [symmetric] using today days other by blast
qed

lemma cutoff_demo_days:
  "calculate_cutoff_time base_demo [36817, 51, 22825] (Some base_demo)
     = Inr \<lparr>year = 2024, month = 5, day = 15, hour = 0, minute = 0, second = 0,
            microsecond = 0\<rparr>"
  by code_simp

lemma cutoff_demo_hyps:
  "valid_datetime base_demo \<and> recent_days_arg [36817, 51, 22825] = Some [51]
   \<and> [104, 105] \<noteq> str_today \<and> recent_days_arg [104, 105] = None
   \<and> int_of_digits [51] = 3 \<and> length [51::int] \<le> int_max_str_digits
   \<and> midnight (year base_demo, month base_demo, day base_demo) = cutoff_demo"
  by code_simp

theorem calculate_cutoff_time_cases_witness:
  "valid_datetime base_demo
   \<and> calculate_cutoff_time base_demo str_today (Some base_demo) = Inr cutoff_demo
   \<and> recent_days_arg [36817, 51, 22825] = Some [51]
   \<and> calculate_cutoff_time base_demo [36817, 51, 22825] (Some base_demo)
       = Inr \<lparr>year = 2024, month = 5, day = 15, hour = 0, minute = 0, second = 0,
              microsecond = 0\<rparr>
   \<and> toordinal \<lparr>year = 2024, month = 5, day = 15, hour = 0, minute = 0, second = 0,
         microsecond = 0\<rparr> = toordinal base_demo - (3 - 1)
   \<and> [104, 105] \<noteq> str_today \<and> recent_days_arg [104, 105] = None
   \<and> calculate_cutoff_time base_demo [104, 105] (Some base_demo) = Inl ValueError"
proof -
  note h = cutoff_demo_hyps
  have today: "calculate_cutoff_time base_demo str_today (Some base_demo) = Inr cutoff_demo"
    using calculate_cutoff_time_cases [where base_opt = "Some base_demo" and now = base_demo
        and date_range = str_today and n = "[]"] h
    by simp
  have other: "calculate_cutoff_time base_demo [104, 105] (Some base_demo) = Inl ValueError"
    using calculate_cutoff_time_cases [where base_opt = "Some base_demo" and now = base_demo
        and date_range = "[104, 105]" and n = "[]"] h
    by simp
  have "toordinal \<lparr>year = 2024, month = 5, day = 15, hour = 0, minute = 0, second = 0,
      microsecond = 0\<rparr> = toordinal base_demo - (3 - 1)"
    using calculate_cutoff_time_cases [where base_opt = "Some base_demo" and now = base_demo
        and date_range = "[36817, 51, 22825]" and n = "[51]"] h cutoff_demo_days
    by (auto split: if_splits)
  with today other h cutoff_demo_days show ?thesis by simp
qed

section \<open>The retrieval methods of WxManager\<close>

subsection \<open>The automation library behind a \<open>WeChat\<close> object\<close>

text \<open>
  What the methods of the instance return or raise during one call of a retrieval
  method. \<open>ChatWith\<close>, \<open>GetAllRecentGroups\<close> and \<open>GetGroupMembers\<close> are called at most
  once; \<open>GetAllMessage\<close> and \<open>LoadMoreMessage\<close> can be called again and again, and the
  outcome of the call number \<open>k\<close> (from 0) is the value at \<open>k\<close>. Every behaviour of the
  library is such a record, so a statement for all records is a statement for all
  behaviours. \<open>group_members_result\<close> is the outcome of \<open>GetGroupMembers\<close>, \<open>now\<close>
  is \<open>datetime.now()\<close>, \<open>random_delay\<close> the value of \<open>random.uniform(4, 10)\<close>,
  \<open>int_of\<close> is \<open>int()\<close> on any string, \<open>timestamp\<close> is \<open>int(dt.timestamp())\<close>.
\<close>

record lib =
  get_all_recent_groups :: "error + (ustr \<times> ustr option) list option"
  chat_with :: "error + unit"
  get_all_message :: "nat \<Rightarrow> error + message list option"
  load_more_message :: "nat \<Rightarrow> error + bool"
  group_members_result :: "error + ustr list option"
  now :: datetime
  random_delay :: real
  int_of :: "ustr \<Rightarrow> error + int"
  timestamp :: "datetime \<Rightarrow> error + int"



text \<open>One library call: its outcome and the event recorded for it.\<close>

definition call :: "api \<Rightarrow> error + 'a \<Rightarrow> (error + 'a) \<times> event list" where
  "call f outcome = (outcome, [Called f (isl outcome)])"

subsection \<open>\<open>get_group_list\<close>\<close>






subsection \<open>\<open>get_group_messages\<close> and \<open>load_more_messages\<close>\<close>








subsection \<open>\<open>get_group_members\<close>\<close>



subsection \<open>\<open>load_messages_by_date_range\<close>\<close>










subsection \<open>No exception reaches the caller\<close>

lemma raised_simps: "raised (Called f b) = b" "raised (Sleep x) = False"
  by (simp_all add: raised_def)

lemma raised_call: "list_ex raised (snd (call f outcome)) = isl outcome"
  by (simp add: call_def raised_simps)


























end
